theory Spec2Isabelle
  imports Complex_Main "HOL-Library.Char_ord" "HOL-Library.List_Lexorder"
begin

section \<open>JavaScript values\<close>

text \<open>
  The values that travel through the handlers and the data-access modules: what a JSON
  body or a route parameter can hold, and what \<^verbatim>\<open>Number(...)\<close> can return.
  Numbers are rationals (the rounding of doubles is not modelled); \<open>JNaN\<close> is the
  not-a-number value.
\<close>

datatype jsval = JUndefined | JNull | JBool bool | JNum rat | JNaN | JStr string

text \<open>\<^verbatim>\<open>a !== b\<close> on primitive values: different unless both are the same value, and
  \<^verbatim>\<open>NaN\<close> differs from itself.\<close>

definition strict_neq :: "jsval \<Rightarrow> jsval \<Rightarrow> bool" where
  "strict_neq a b \<longleftrightarrow> a \<noteq> b \<or> a = JNaN"

text \<open>\<^verbatim>\<open>!v\<close>: the values JavaScript takes for false in a condition.\<close>

fun falsy :: "jsval \<Rightarrow> bool" where
  "falsy JUndefined = True"
| "falsy JNull = True"
| "falsy (JBool b) = (\<not> b)"
| "falsy (JNum q) = (q = 0)"
| "falsy JNaN = True"
| "falsy (JStr s) = (s = [])"

text \<open>\<^verbatim>\<open>xs.join(sep)\<close> on an array of strings.\<close>

fun join :: "string \<Rightarrow> string list \<Rightarrow> string" where
  "join sep [] = []"
| "join sep [x] = x"
| "join sep (x # y # ys) = x @ sep @ join sep (y # ys)"

section \<open>The relational store\<close>

text \<open>
  Modelled from the spec: the module \<^verbatim>\<open>db.js\<close> and the schema of the tables are
  missing from the sources. The spec gives every Reading, Switch and Light the fields
  id (auto, unique), date, value and user (owner id), each family in its own table, and
  assumes a store with durable CRUD and auto-incrementing identifiers.

  A row keeps its id and its owner as integers, its date as the text that was written and
  its value as the JavaScript value that was written. The type parameter is the type of
  the date field, since \<^verbatim>\<open>list\<close> hands the date out wrapped by \<^verbatim>\<open>dayjs\<close>.
\<close>

record 'd row =
  id_col :: int
  date_col :: 'd
  value_col :: jsval
  user_col :: int

datatype dayjs = Dayjs string

datatype table = Temperatures | Switches | Lights

text \<open>
  The six statements that the data-access modules send, each with its bound parameters
  (for the lights table the source lists value before date in INSERT and UPDATE; the
  binding by column is the same).
\<close>

datatype stmt =
    SelectWhereUser table jsval
      \<comment> \<open>\<^verbatim>\<open>SELECT * FROM t WHERE user=?\<close>\<close>
  | SelectWhereIdUser table jsval jsval
      \<comment> \<open>\<^verbatim>\<open>SELECT * FROM t WHERE id=? and user=?\<close>, bound \<^verbatim>\<open>[id, user]\<close>\<close>
  | SelectLastOfUser table jsval
      \<comment> \<open>\<^verbatim>\<open>SELECT * FROM t WHERE user=? ORDER BY date DESC LIMIT 1\<close>\<close>
  | InsertInto table string jsval int
      \<comment> \<open>\<^verbatim>\<open>INSERT INTO t (date, value, user) VALUES(?, ?, ?)\<close>\<close>
  | UpdateSet table string jsval jsval jsval
      \<comment> \<open>\<^verbatim>\<open>UPDATE t SET date = ?, value = ? WHERE id = ? and user = ?\<close>\<close>
  | DeleteFrom table jsval jsval
      \<comment> \<open>\<^verbatim>\<open>DELETE FROM t WHERE id = ? and user = ?\<close>, bound \<^verbatim>\<open>[id, user]\<close>\<close>

text \<open>
  Modelled from the spec: the state of the store behind \<^verbatim>\<open>db.js\<close>. It holds the rows
  of each table in the store's natural order, the statements issued so far, and the
  statements the store refuses (a constraint violation, a locked or unreadable file), each
  with the error it reports.
\<close>

record db =
  tables :: "table \<Rightarrow> string row list"
  issued :: "stmt list"
  fails :: "stmt \<Rightarrow> string option"

text \<open>
  Modelled from the spec: how the store reads a bound parameter against the integer
  columns id and user (the schema is missing). The handlers pass ids as JavaScript numbers
  or as the text of a route parameter, so an integral number and a text of decimal digits
  both stand for that integer; anything else matches no row.
\<close>

definition is_digit :: "char \<Rightarrow> bool" where
  "is_digit c \<longleftrightarrow> (48::nat) \<le> of_char c \<and> of_char c \<le> (57::nat)"

definition decimal :: "string \<Rightarrow> int option" where
  "decimal s =
     (if s \<noteq> [] \<and> list_all is_digit s
      then Some (int (foldl (\<lambda>a c. 10 * a + (of_char c - 48)) 0 s))
      else None)"

fun sql_int :: "jsval \<Rightarrow> int option" where
  "sql_int (JNum q) = (if of_int \<lfloor>q\<rfloor> = q then Some \<lfloor>q\<rfloor> else None)"
| "sql_int (JStr s) = decimal s"
| "sql_int v = None"

definition js_int :: "int \<Rightarrow> jsval" where
  "js_int n = JNum (of_int n)"

text \<open>\<^verbatim>\<open>WHERE user=?\<close> and \<^verbatim>\<open>WHERE id=? and user=?\<close> as predicates on a row.\<close>

definition where_user :: "jsval \<Rightarrow> 'd row \<Rightarrow> bool" where
  "where_user user r \<longleftrightarrow> sql_int user = Some (user_col r)"

definition where_id_user :: "jsval \<Rightarrow> jsval \<Rightarrow> 'd row \<Rightarrow> bool" where
  "where_id_user i user r \<longleftrightarrow> sql_int i = Some (id_col r) \<and> sql_int user = Some (user_col r)"

text \<open>Modelled from the spec: \<^verbatim>\<open>ORDER BY date DESC LIMIT 1\<close> yields a row whose date no
  other row of the list exceeds, dates compared as text, byte by byte (among rows of equal
  date, the first).\<close>

fun latest :: "string row list \<Rightarrow> string row option" where
  "latest [] = None"
| "latest (r # rs) =
     (case latest rs of
        None \<Rightarrow> Some r
      | Some m \<Rightarrow> if date_col m \<le> date_col r then Some r else Some m)"

text \<open>Modelled from the spec: the auto-assigned id of the next inserted row is one more
  than the largest id of the table (1 in an empty table), hence an id no row has.\<close>

definition next_id :: "'d row list \<Rightarrow> int" where
  "next_id rs = Max (insert 0 (id_col ` set rs)) + 1"

text \<open>Modelled from the spec: the rows a SELECT yields, in order.\<close>

fun select :: "stmt \<Rightarrow> db \<Rightarrow> string row list" where
  "select (SelectWhereUser t user) d = filter (where_user user) (tables d t)"
| "select (SelectWhereIdUser t i user) d = filter (where_id_user i user) (tables d t)"
| "select (SelectLastOfUser t user) d =
     (case latest (filter (where_user user) (tables d t)) of None \<Rightarrow> [] | Some r \<Rightarrow> [r])"
| "select q d = []"

text \<open>Modelled from the spec: the tables after a writing statement, and the
  \<^verbatim>\<open>lastID\<close> it leaves (read by the modules after an INSERT only).\<close>

fun perform :: "stmt \<Rightarrow> db \<Rightarrow> (table \<Rightarrow> string row list) \<times> int" where
  "perform (InsertInto t date v user) d =
     (let n = next_id (tables d t) in
      ((tables d)(t := tables d t @
          [\<lparr>id_col = n, date_col = date, value_col = v, user_col = user\<rparr>]), n))"
| "perform (UpdateSet t date v i user) d =
     ((tables d)(t := map (\<lambda>r. if where_id_user i user r
                                  then r\<lparr>date_col := date, value_col := v\<rparr> else r)
                            (tables d t)), 0)"
| "perform (DeleteFrom t i user) d =
     ((tables d)(t := filter (\<lambda>r. \<not> where_id_user i user r) (tables d t)), 0)"
| "perform q d = (tables d, 0)"

text \<open>
  Modelled from the spec: the three calls on the handle that \<^verbatim>\<open>db.js\<close> exports. Each
  records the statement; a refused statement yields the error (\<open>Inl\<close>) and leaves the
  tables as they were. \<^verbatim>\<open>db.all\<close> yields all rows, \<^verbatim>\<open>db.get\<close> the first row or
  \<^verbatim>\<open>undefined\<close> (\<open>None\<close>), \<^verbatim>\<open>db.run\<close> performs the write and yields
  \<^verbatim>\<open>this.lastID\<close>.
\<close>

definition db_all :: "stmt \<Rightarrow> db \<Rightarrow> (string + string row list) \<times> db" where
  "db_all q d =
     (case fails d q of
        Some err \<Rightarrow> (Inl err, d\<lparr>issued := issued d @ [q]\<rparr>)
      | None \<Rightarrow> (Inr (select q d), d\<lparr>issued := issued d @ [q]\<rparr>))"

definition db_get :: "stmt \<Rightarrow> db \<Rightarrow> (string + string row option) \<times> db" where
  "db_get q d =
     (case fails d q of
        Some err \<Rightarrow> (Inl err, d\<lparr>issued := issued d @ [q]\<rparr>)
      | None \<Rightarrow>
          (Inr (case select q d of [] \<Rightarrow> None | r # rs \<Rightarrow> Some r),
           d\<lparr>issued := issued d @ [q]\<rparr>))"

definition db_run :: "stmt \<Rightarrow> db \<Rightarrow> (string + int) \<times> db" where
  "db_run q d =
     (case fails d q of
        Some err \<Rightarrow> (Inl err, d\<lparr>issued := issued d @ [q]\<rparr>)
      | None \<Rightarrow>
          (Inr (snd (perform q d)), d\<lparr>tables := fst (perform q d), issued := issued d @ [q]\<rparr>))"

section \<open>The data-access modules\<close>

text \<open>
  A promise is the pair of its outcome and the store it leaves: \<open>Inl err\<close> is
  \<^verbatim>\<open>reject(err)\<close>, \<open>Inr x\<close> is \<^verbatim>\<open>resolve(x)\<close>. What \<^verbatim>\<open>get\<close> resolves
  with is either the object \<^verbatim>\<open>{ error: <string> }\<close> or the row.
\<close>

datatype result = ErrorObj string | RowObj "string row"

text \<open>The record \<^verbatim>\<open>create\<close> receives: \<^verbatim>\<open>{date, value, user}\<close>.\<close>

record fields =
  date_f :: string
  value_f :: jsval
  user_f :: int

text \<open>
  The three modules are the same code over three tables and three messages; the common
  body is written once, and each exported function is its instance.
\<close>

definition list_rows :: "table \<Rightarrow> jsval \<Rightarrow> db \<Rightarrow> (string + dayjs row list) \<times> db" where
  "list_rows t user d =
     (case db_all (SelectWhereUser t user) d of
        (Inl err, d') \<Rightarrow> (Inl err, d')
      | (Inr rows, d') \<Rightarrow>
          (Inr (map (\<lambda>e. \<lparr>id_col = id_col e, date_col = Dayjs (date_col e),
                           value_col = value_col e, user_col = user_col e\<rparr>) rows), d'))"

definition get_row :: "table \<Rightarrow> string \<Rightarrow> jsval \<Rightarrow> jsval \<Rightarrow> db \<Rightarrow> (string + result) \<times> db" where
  "get_row t msg user i d =
     (case db_get (SelectWhereIdUser t i user) d of
        (Inl err, d') \<Rightarrow> (Inl err, d')
      | (Inr None, d') \<Rightarrow> (Inr (ErrorObj msg), d')
      | (Inr (Some row), d') \<Rightarrow> (Inr (RowObj row), d'))"

definition create_row :: "table \<Rightarrow> string \<Rightarrow> fields \<Rightarrow> db \<Rightarrow> (string + result) \<times> db" where
  "create_row t msg s d =
     (case db_run (InsertInto t (date_f s) (value_f s) (user_f s)) d of
        (Inl err, d') \<Rightarrow> (Inl err, d')
      | (Inr lastID, d') \<Rightarrow> get_row t msg (js_int (user_f s)) (js_int lastID) d')"

definition update_row ::
  "table \<Rightarrow> string \<Rightarrow> jsval \<Rightarrow> jsval \<Rightarrow> string row \<Rightarrow> db \<Rightarrow> (string + result) \<times> db" where
  "update_row t msg user i s d =
     (case db_run (UpdateSet t (date_col s) (value_col s) i user) d of
        (Inl err, d') \<Rightarrow> (Inl err, d')
      | (Inr lastID, d') \<Rightarrow> get_row t msg (js_int (user_col s)) i d')"

definition delete_row :: "table \<Rightarrow> jsval \<Rightarrow> jsval \<Rightarrow> db \<Rightarrow> (string + unit) \<times> db" where
  "delete_row t user i d =
     (case db_run (DeleteFrom t i user) d of
        (Inl err, d') \<Rightarrow> (Inl err, d')
      | (Inr lastID, d') \<Rightarrow> (Inr (), d'))"

subsection \<open>dao-switches\<close>

definition listSwitches :: "jsval \<Rightarrow> db \<Rightarrow> (string + dayjs row list) \<times> db" where
  "listSwitches = list_rows Switches"

definition getSwitch :: "jsval \<Rightarrow> jsval \<Rightarrow> db \<Rightarrow> (string + result) \<times> db" where
  "getSwitch = get_row Switches ''Switch not found.''"

definition createSwitch :: "fields \<Rightarrow> db \<Rightarrow> (string + result) \<times> db" where
  "createSwitch = create_row Switches ''Switch not found.''"

definition updateSwitch :: "jsval \<Rightarrow> jsval \<Rightarrow> string row \<Rightarrow> db \<Rightarrow> (string + result) \<times> db" where
  "updateSwitch = update_row Switches ''Switch not found.''"

definition deleteSwitch :: "jsval \<Rightarrow> jsval \<Rightarrow> db \<Rightarrow> (string + unit) \<times> db" where
  "deleteSwitch = delete_row Switches"

subsection \<open>dao-lights\<close>

definition listLights :: "jsval \<Rightarrow> db \<Rightarrow> (string + dayjs row list) \<times> db" where
  "listLights = list_rows Lights"

definition getLight :: "jsval \<Rightarrow> jsval \<Rightarrow> db \<Rightarrow> (string + result) \<times> db" where
  "getLight = get_row Lights ''Light not found.''"

definition createLight :: "fields \<Rightarrow> db \<Rightarrow> (string + result) \<times> db" where
  "createLight = create_row Lights ''Light not found.''"

definition updateLight :: "jsval \<Rightarrow> jsval \<Rightarrow> string row \<Rightarrow> db \<Rightarrow> (string + result) \<times> db" where
  "updateLight = update_row Lights ''Light not found.''"

definition deleteLight :: "jsval \<Rightarrow> jsval \<Rightarrow> db \<Rightarrow> (string + unit) \<times> db" where
  "deleteLight = delete_row Lights"

subsection \<open>dao-temperatures\<close>

definition listTemperatures :: "jsval \<Rightarrow> db \<Rightarrow> (string + dayjs row list) \<times> db" where
  "listTemperatures = list_rows Temperatures"

definition getTemperature :: "jsval \<Rightarrow> jsval \<Rightarrow> db \<Rightarrow> (string + result) \<times> db" where
  "getTemperature = get_row Temperatures ''Temperature not found.''"

definition getLastTemperature :: "jsval \<Rightarrow> db \<Rightarrow> (string + result) \<times> db" where
  "getLastTemperature user d =
     (case db_get (SelectLastOfUser Temperatures user) d of
        (Inl err, d') \<Rightarrow> (Inl err, d')
      | (Inr None, d') \<Rightarrow> (Inr (ErrorObj ''There is no temperature for this sensor!''), d')
      | (Inr (Some row), d') \<Rightarrow> (Inr (RowObj row), d'))"

definition createTemperature :: "fields \<Rightarrow> db \<Rightarrow> (string + result) \<times> db" where
  "createTemperature = create_row Temperatures ''Temperature not found.''"

definition deleteTemperature :: "jsval \<Rightarrow> jsval \<Rightarrow> db \<Rightarrow> (string + unit) \<times> db" where
  "deleteTemperature = delete_row Temperatures"

section \<open>The HTTP layer\<close>

text \<open>
  A response is its status and its JSON body (\<open>None\<close> for \<^verbatim>\<open>res.status(n).end()\<close>);
  \<open>Next err\<close> is \<^verbatim>\<open>next(err)\<close>, the error handed on to the framework.
\<close>

record user =
  user_id :: int
  username :: string
  name :: string

datatype json =
    Obj result
      \<comment> \<open>a row, or \<^verbatim>\<open>{ error: <string> }\<close>\<close>
  | Arr "dayjs row list"
  | EmptyObj
  | UserObj user
  | ErrorMessageObj string
      \<comment> \<open>\<^verbatim>\<open>{ error: { message: <string> } }\<close>\<close>
  | ErrVal string
      \<comment> \<open>the store's error itself, \<^verbatim>\<open>res.status(500).json(err)\<close>\<close>

datatype reply = Reply nat "json option" | Next string

text \<open>
  A request: the route parameter \<^verbatim>\<open>req.params.id\<close> (text), the fields of the JSON
  body that the handlers and the login strategy read (an absent field is \<open>JUndefined\<close>),
  and the user of the session, if the session is authenticated.
\<close>

record body =
  b_id :: jsval
  b_user :: jsval
  b_value :: jsval
  b_username :: jsval
  b_password :: jsval

record request =
  params_id :: string
  body :: body
  session_user :: "user option"

text \<open>
  What the handlers take from outside the repository: the validation chains of
  express-validator (\<open>validation env checks\<close> is \<^verbatim>\<open>validationResult(req)\<close>
  formatted by \<^verbatim>\<open>errorFormatter\<close>, one message per violated check, computed from
  the route parameter and the body), the conversion \<^verbatim>\<open>Number(...)\<close> of a text, and
  the clock \<^verbatim>\<open>dayjs.utc().format()\<close>.
\<close>

datatype check = IsInt string | IsFloat string | IsBoolean string

record env =
  validation :: "check list \<Rightarrow> string \<Rightarrow> body \<Rightarrow> string list"
  Number :: "string \<Rightarrow> jsval"
  utc_now :: string

text \<open>\<^verbatim>\<open>if (result.error)\<close>: the property is a non-empty string on the error object and
  absent on a row.\<close>

fun has_error :: "result \<Rightarrow> bool" where
  "has_error (ErrorObj m) = (m \<noteq> [])"
| "has_error (RowObj r) = False"

text \<open>The middleware \<^verbatim>\<open>isLoggedIn\<close>: \<open>None\<close> is \<^verbatim>\<open>next()\<close>. Every route below
  has it commented out.\<close>

definition isLoggedIn :: "request \<Rightarrow> reply option" where
  "isLoggedIn req =
     (if session_user req \<noteq> None then None
      else Some (Reply 401 (Some (Obj (ErrorObj ''Not authorized'')))))"

subsection \<open>Temperatures\<close>

definition get_temperatures :: "env \<Rightarrow> request \<Rightarrow> db \<Rightarrow> reply \<times> db" where
  "get_temperatures e req d =
     (case listTemperatures (JNum 1) d of
        (Inr temperatures, d') \<Rightarrow> (Reply 200 (Some (Arr temperatures)), d')
      | (Inl err, d') \<Rightarrow> (Reply 500 (Some (ErrVal err)), d'))"

definition get_temperatures_last :: "env \<Rightarrow> request \<Rightarrow> db \<Rightarrow> reply \<times> db" where
  "get_temperatures_last e req d =
     (case getLastTemperature (JNum 1) d of
        (Inr result, d') \<Rightarrow>
          if has_error result then (Reply 404 (Some (Obj result)), d')
          else (Reply 200 (Some (Obj result)), d')
      | (Inl err, d') \<Rightarrow> (Reply 500 None, d'))"

definition get_temperatures_id :: "env \<Rightarrow> request \<Rightarrow> db \<Rightarrow> reply \<times> db" where
  "get_temperatures_id e req d =
     (case getTemperature (JNum 1) (JStr (params_id req)) d of
        (Inr result, d') \<Rightarrow>
          if has_error result then (Reply 404 (Some (Obj result)), d')
          else (Reply 200 (Some (Obj result)), d')
      | (Inl err, d') \<Rightarrow> (Reply 500 None, d'))"

definition post_temperatures :: "env \<Rightarrow> request \<Rightarrow> db \<Rightarrow> reply \<times> db" where
  "post_temperatures e req d =
     (let errors = validation e [IsFloat ''value''] (params_id req) (body req) in
      if errors \<noteq> [] then (Reply 422 (Some (Obj (ErrorObj (join '', '' errors)))), d)
      else
        let temperature = \<lparr>date_f = utc_now e, value_f = b_value (body req), user_f = 1\<rparr> in
        case createTemperature temperature d of
          (Inr result, d') \<Rightarrow> (Reply 200 (Some (Obj result)), d')
        | (Inl err, d') \<Rightarrow>
            (Reply 503 (Some (Obj (ErrorObj
               (''Database error during the creation of new temperature: '' @ err)))), d'))"

definition delete_temperatures_id :: "env \<Rightarrow> request \<Rightarrow> db \<Rightarrow> reply \<times> db" where
  "delete_temperatures_id e req d =
     (case deleteTemperature (JNum 1) (JStr (params_id req)) d of
        (Inr u, d') \<Rightarrow> (Reply 200 (Some EmptyObj), d')
      | (Inl err, d') \<Rightarrow>
          (Reply 503 (Some (Obj (ErrorObj
             (''Database error during the deletion of temperature '' @ params_id req
                @ '': '' @ err @ '' '')))), d'))"

subsection \<open>Switches\<close>

text \<open>In the two PUT handlers \<^verbatim>\<open>s.error\<close> is tested on what \<^verbatim>\<open>getSwitch\<close> or
  \<^verbatim>\<open>getLight\<close> resolved with: the error object carries the module's non-empty message,
  so that branch answers 404, and a row goes on to the update.\<close>

definition get_switches_id :: "env \<Rightarrow> request \<Rightarrow> db \<Rightarrow> reply \<times> db" where
  "get_switches_id e req d =
     (case getSwitch (JNum 1) (JStr (params_id req)) d of
        (Inr result, d') \<Rightarrow>
          if has_error result then (Reply 404 (Some (Obj result)), d')
          else (Reply 200 (Some (Obj result)), d')
      | (Inl err, d') \<Rightarrow> (Reply 500 None, d'))"

definition put_switches_id :: "env \<Rightarrow> request \<Rightarrow> db \<Rightarrow> reply \<times> db" where
  "put_switches_id e req d =
     (let errors = validation e [IsInt ''id'', IsBoolean ''value''] (params_id req) (body req) in
      if errors \<noteq> [] then (Reply 422 (Some (Obj (ErrorObj (join '', '' errors)))), d)
      else if strict_neq (b_id (body req)) (Number e (params_id req))
      then (Reply 422 (Some (Obj (ErrorObj ''URL and body id mismatch''))), d)
      else
        case getSwitch (b_user (body req)) (b_id (body req)) d of
          (Inl err, d1) \<Rightarrow>
            (Reply 503 (Some (Obj (ErrorObj
               (''Database error during the update of switch '' @ params_id req)))), d1)
        | (Inr (ErrorObj m), d1) \<Rightarrow> (Reply 404 (Some (Obj (ErrorObj m))), d1)
        | (Inr (RowObj s0), d1) \<Rightarrow>
            (let s = s0\<lparr>date_col := utc_now e, value_col := b_value (body req)\<rparr> in
             (case updateSwitch (b_user (body req)) (js_int (id_col s)) s d1 of
                (Inr result, d2) \<Rightarrow> (Reply 200 (Some (Obj result)), d2)
              | (Inl err, d2) \<Rightarrow>
                  (Reply 503 (Some (Obj (ErrorObj
                     (''Database error during the update of switch '' @ params_id req)))), d2))))"

subsection \<open>Lights\<close>

definition get_lights_id :: "env \<Rightarrow> request \<Rightarrow> db \<Rightarrow> reply \<times> db" where
  "get_lights_id e req d =
     (case getLight (JNum 1) (JStr (params_id req)) d of
        (Inr result, d') \<Rightarrow>
          if has_error result then (Reply 404 (Some (Obj result)), d')
          else (Reply 200 (Some (Obj result)), d')
      | (Inl err, d') \<Rightarrow> (Reply 500 None, d'))"

definition put_lights_id :: "env \<Rightarrow> request \<Rightarrow> db \<Rightarrow> reply \<times> db" where
  "put_lights_id e req d =
     (let errors = validation e [IsInt ''id'', IsInt ''value''] (params_id req) (body req) in
      if errors \<noteq> [] then (Reply 422 (Some (Obj (ErrorObj (join '', '' errors)))), d)
      else if strict_neq (b_id (body req)) (Number e (params_id req))
      then (Reply 422 (Some (Obj (ErrorObj ''URL and body id mismatch''))), d)
      else
        case getLight (b_user (body req)) (b_id (body req)) d of
          (Inl err, d1) \<Rightarrow>
            (Reply 503 (Some (Obj (ErrorObj
               (''Database error during the update of light '' @ params_id req)))), d1)
        | (Inr (ErrorObj m), d1) \<Rightarrow> (Reply 404 (Some (Obj (ErrorObj m))), d1)
        | (Inr (RowObj s0), d1) \<Rightarrow>
            (let s = s0\<lparr>date_col := utc_now e, value_col := b_value (body req)\<rparr> in
             (case updateLight (b_user (body req)) (js_int (id_col s)) s d1 of
                (Inr result, d2) \<Rightarrow> (Reply 200 (Some (Obj result)), d2)
              | (Inl err, d2) \<Rightarrow>
                  (Reply 503 (Some (Obj (ErrorObj
                     (''Database error during the update of light '' @ params_id req)))), d2))))"

section \<open>Sessions\<close>

text \<open>
  Modelled from the spec: the module \<^verbatim>\<open>dao-users.js\<close> is missing from the sources.
  The spec gives a User the fields id, username (unique), name and a password credential,
  and treats the credential check as an opaque function. An account is the user with its
  stored credential; \<open>chk password credential\<close> is that opaque check.
  \<^verbatim>\<open>getUser\<close> yields the user (id, username, name) when an account has the username
  and its credential accepts the password, and nothing otherwise.
\<close>

record 'c account =
  account_user :: user
  credential :: 'c

definition getUser ::
  "(jsval \<Rightarrow> 'c \<Rightarrow> bool) \<Rightarrow> 'c account list \<Rightarrow> jsval \<Rightarrow> jsval \<Rightarrow> user option" where
  "getUser chk accounts uname password =
     (case find (\<lambda>a. JStr (username (account_user a)) = uname) accounts of
        None \<Rightarrow> None
      | Some a \<Rightarrow> if chk password (credential a) then Some (account_user a) else None)"

text \<open>
  The third argument of the callback \<^verbatim>\<open>cb(err, user, info)\<close>: the text that
  \<open>verify\<close> passes, or the object \<^verbatim>\<open>{ message: <string> }\<close> that the strategy passes
  when it answers by itself.
\<close>

datatype info = InfoText string | InfoMessage string

text \<open>The verify function of the local strategy; the triple is what it passes to
  \<^verbatim>\<open>cb(err, user, info)\<close>, with \<open>None\<close> for \<^verbatim>\<open>null\<close>, \<^verbatim>\<open>false\<close> and an
  absent argument.\<close>

definition verify ::
  "(jsval \<Rightarrow> 'c \<Rightarrow> bool) \<Rightarrow> 'c account list \<Rightarrow> jsval \<Rightarrow> jsval
     \<Rightarrow> string option \<times> user option \<times> info option" where
  "verify chk accounts uname password =
     (case getUser chk accounts uname password of
        None \<Rightarrow> (None, None, Some (InfoText ''Incorrect username or password''))
      | Some u \<Rightarrow> (None, Some u, None))"

text \<open>
  \<^verbatim>\<open>passport.authenticate('local', callback)\<close>, from the passport libraries (outside
  the repository): the local strategy reads the username and the password of the request;
  when one of them is absent or empty it fails by itself with the info
  \<^verbatim>\<open>{ message: 'Missing credentials' }\<close> and does not call \<open>verify\<close>; otherwise it
  calls \<open>verify\<close> with the two values. Either way the callback of the handler receives
  the triple \<^verbatim>\<open>(err, user, info)\<close>.
\<close>

definition authenticate_local ::
  "(jsval \<Rightarrow> 'c \<Rightarrow> bool) \<Rightarrow> 'c account list \<Rightarrow> request
     \<Rightarrow> string option \<times> user option \<times> info option" where
  "authenticate_local chk accounts req =
     (if falsy (b_username (body req)) \<or> falsy (b_password (body req))
      then (None, None, Some (InfoMessage ''Missing credentials''))
      else verify chk accounts (b_username (body req)) (b_password (body req)))"

text \<open>\<^verbatim>\<open>{ error: info }\<close> as JSON; an absent info leaves the empty object.\<close>

fun error_json :: "info option \<Rightarrow> json" where
  "error_json (Some (InfoText m)) = Obj (ErrorObj m)"
| "error_json (Some (InfoMessage m)) = ErrorMessageObj m"
| "error_json None = EmptyObj"

text \<open>
  \<^verbatim>\<open>POST /api/sessions\<close>: the callback that the handler gives to
  \<^verbatim>\<open>passport.authenticate\<close>, and the handler. \<open>login u\<close> is what \<^verbatim>\<open>req.login\<close>
  reports to its callback when it establishes the session for \<open>u\<close> (\<open>None\<close> for
  success, after which \<^verbatim>\<open>req.user\<close> is \<open>u\<close>); it belongs to the passport and
  session libraries and is a parameter. The result is the response and the user of the
  session afterwards (taken to be as before when the login is not established).
\<close>

definition sessions_callback ::
  "(user \<Rightarrow> string option) \<Rightarrow> request \<Rightarrow> string option \<times> user option \<times> info option
     \<Rightarrow> reply \<times> user option" where
  "sessions_callback login req r =
     (case r of
        (Some err, u, info) \<Rightarrow> (Next err, session_user req)
      | (None, None, info) \<Rightarrow> (Reply 401 (Some (error_json info)), session_user req)
      | (None, Some u, info) \<Rightarrow>
          (case login u of
             Some err \<Rightarrow> (Next err, session_user req)
           | None \<Rightarrow> (Reply 200 (Some (UserObj u)), Some u)))"

definition post_sessions ::
  "(jsval \<Rightarrow> 'c \<Rightarrow> bool) \<Rightarrow> 'c account list \<Rightarrow> (user \<Rightarrow> string option) \<Rightarrow> request
     \<Rightarrow> reply \<times> user option" where
  "post_sessions chk accounts login req =
     sessions_callback login req (authenticate_local chk accounts req)"

definition get_sessions_current :: "request \<Rightarrow> reply" where
  "get_sessions_current req =
     (case session_user req of
        Some u \<Rightarrow> Reply 200 (Some (UserObj u))
      | None \<Rightarrow> Reply 401 (Some (Obj (ErrorObj ''Not authenticated''))))"

definition delete_sessions_current :: "request \<Rightarrow> reply \<times> user option" where
  "delete_sessions_current req = (Reply 200 (Some EmptyObj), None)"

section \<open>Reading the statements of a run\<close>

text \<open>The user a statement is scoped to (its \<^verbatim>\<open>user\<close> parameter), and the statements
  a handler or a data-access function added to those issued before it.\<close>

fun stmt_user :: "stmt \<Rightarrow> jsval" where
  "stmt_user (SelectWhereUser t user) = user"
| "stmt_user (SelectWhereIdUser t i user) = user"
| "stmt_user (SelectLastOfUser t user) = user"
| "stmt_user (InsertInto t date v user) = js_int user"
| "stmt_user (UpdateSet t date v i user) = user"
| "stmt_user (DeleteFrom t i user) = user"

definition new_stmts :: "db \<Rightarrow> db \<Rightarrow> stmt list" where
  "new_stmts d d' = drop (length (issued d)) (issued d')"

section \<open>Example data\<close>

definition example_db :: db where
  "example_db =
     \<lparr>tables = (\<lambda>t. case t of
          Temperatures \<Rightarrow>
            [\<lparr>id_col = 1, date_col = ''2023-01-10T08:00:00Z'', value_col = JNum 19, user_col = 1\<rparr>,
             \<lparr>id_col = 2, date_col = ''2023-01-12T08:00:00Z'', value_col = JNum 21, user_col = 1\<rparr>,
             \<lparr>id_col = 3, date_col = ''2023-01-11T08:00:00Z'', value_col = JNum 20, user_col = 1\<rparr>,
             \<lparr>id_col = 4, date_col = ''2023-01-13T08:00:00Z'', value_col = JNum 17, user_col = 2\<rparr>]
        | Switches \<Rightarrow>
            [\<lparr>id_col = 4, date_col = ''2023-01-10T08:00:00Z'', value_col = JBool True, user_col = 1\<rparr>,
             \<lparr>id_col = 5, date_col = ''2023-01-10T09:00:00Z'', value_col = JBool False, user_col = 2\<rparr>]
        | Lights \<Rightarrow>
            [\<lparr>id_col = 3, date_col = ''2023-01-10T08:00:00Z'', value_col = JNum 40, user_col = 1\<rparr>]),
      issued = [],
      fails = (\<lambda>q. None)\<rparr>"

definition example_env :: env where
  "example_env =
     \<lparr>validation = (\<lambda>checks p b. []),
      Number = (\<lambda>s. case decimal s of Some n \<Rightarrow> js_int n | None \<Rightarrow> JNaN),
      utc_now = ''2023-02-01T12:00:00Z''\<rparr>"

definition example_request :: request where
  "example_request =
     \<lparr>params_id = ''5'',
      body = \<lparr>b_id = JNum 5, b_user = JNum 2, b_value = JBool True,
               b_username = JUndefined, b_password = JUndefined\<rparr>,
      session_user = None\<rparr>"

text \<open>A credential check that accepts the stored text itself, a session that is
  established, and one that reports an error.\<close>

definition example_check :: "jsval \<Rightarrow> string \<Rightarrow> bool" where
  "example_check p c \<longleftrightarrow> p = JStr c"

definition example_login :: "user \<Rightarrow> string option" where
  "example_login u = None"

definition example_login_error :: "user \<Rightarrow> string option" where
  "example_login_error u = Some ''no session''"

definition example_accounts :: "string account list" where
  "example_accounts =
     [\<lparr>account_user = \<lparr>user_id = 1, username = ''u1@p.it'', name = ''John''\<rparr>,
       credential = ''pwd''\<rparr>]"

section \<open>Facts about the driver and the generic bodies\<close>

lemma sql_int_js_int: "sql_int (js_int n) = Some n"
  by (simp add: js_int_def)

lemma get_row_fst:
  "fst (get_row t msg user i d) =
     (case fails d (SelectWhereIdUser t i user) of
        Some err \<Rightarrow> Inl err
      | None \<Rightarrow>
          Inr (case filter (where_id_user i user) (tables d t) of
                 [] \<Rightarrow> ErrorObj msg | r # rs \<Rightarrow> RowObj r))"
  by (simp add: get_row_def db_get_def split: option.splits list.splits)

lemma get_row_snd:
  "snd (get_row t msg user i d) = d\<lparr>issued := issued d @ [SelectWhereIdUser t i user]\<rparr>"
  by (simp add: get_row_def db_get_def split: option.splits list.splits)

lemma delete_row_fst:
  "fst (delete_row t user i d) =
     (case fails d (DeleteFrom t i user) of Some err \<Rightarrow> Inl err | None \<Rightarrow> Inr ())"
  by (simp add: delete_row_def db_run_def split: option.splits)

lemma delete_row_snd:
  "snd (delete_row t user i d) =
     (case fails d (DeleteFrom t i user) of
        Some err \<Rightarrow> d\<lparr>issued := issued d @ [DeleteFrom t i user]\<rparr>
      | None \<Rightarrow>
          d\<lparr>tables := (tables d)(t := filter (\<lambda>r. \<not> where_id_user i user r) (tables d t)),
            issued := issued d @ [DeleteFrom t i user]\<rparr>)"
  by (simp add: delete_row_def db_run_def split: option.splits)

lemma delete_row_then_get_row:
  assumes "fails d (DeleteFrom t i user) = None"
    and "fails d (SelectWhereIdUser t i user) = None"
  shows "fst (delete_row t user i d) = Inr ()"
    and "fst (get_row t msg user i (snd (delete_row t user i d))) = Inr (ErrorObj msg)"
  using assms by (simp_all add: delete_row_fst delete_row_snd get_row_fst)

section \<open>Deleting\<close>

text \<open>
  Claim C6. In each of the three modules, \<^verbatim>\<open>delete(user, id)\<close> resolves whenever the
  store does not refuse the DELETE statement, whether or not a row matches id and user,
  and a \<^verbatim>\<open>get(user, id)\<close> that follows resolves with the module's not-found object.
\<close>

theorem delete_then_get_not_found:
  assumes "(delete, get, t, msg) \<in>
      {(deleteTemperature, getTemperature, Temperatures, ''Temperature not found.''),
       (deleteSwitch, getSwitch, Switches, ''Switch not found.''),
       (deleteLight, getLight, Lights, ''Light not found.'')}"
    and "fails d (DeleteFrom t i user) = None"
    and "fails d (SelectWhereIdUser t i user) = None"
  shows "fst (delete user i d) = Inr () \<and>
         fst (get user i (snd (delete user i d))) = Inr (ErrorObj msg)"
  using assms delete_row_then_get_row [where d = d and t = t and i = i and user = user]
  by (auto simp: deleteTemperature_def getTemperature_def deleteSwitch_def getSwitch_def
      deleteLight_def getLight_def)

theorem delete_then_get_not_found_witness:
  "fst (deleteLight (JNum 1) (JNum 3) example_db) = Inr () \<and>
   fst (getLight (JNum 1) (JNum 3) (snd (deleteLight (JNum 1) (JNum 3) example_db)))
     = Inr (ErrorObj ''Light not found.'') \<and>
   fst (deleteLight (JNum 1) (JNum 8) example_db) = Inr () \<and>
   fst (getLight (JNum 1) (JNum 8) (snd (deleteLight (JNum 1) (JNum 8) example_db)))
     = Inr (ErrorObj ''Light not found.'') \<and>
   fst (getLight (JNum 1) (JNum 3) example_db) \<noteq> Inr (ErrorObj ''Light not found.'')"
  using delete_then_get_not_found [of deleteLight getLight Lights "''Light not found.''"
      example_db "JNum 3" "JNum 1"]
    delete_then_get_not_found [of deleteLight getLight Lights "''Light not found.''"
      example_db "JNum 8" "JNum 1"]
  by (simp add: example_db_def getLight_def get_row_fst where_id_user_def)

section \<open>Creating\<close>

lemma next_id_fresh: "r \<in> set rs \<Longrightarrow> id_col r < next_id rs"
proof -
  assume "r \<in> set rs"
  then have "id_col r \<le> Max (insert 0 (id_col ` set rs))"
    by (intro Max_ge) auto
  then show ?thesis by (simp add: next_id_def)
qed

lemma filter_fresh_id:
  assumes "\<forall>r\<in>set rs. id_col r \<noteq> n"
  shows "filter (where_id_user (js_int n) u) rs = []"
  using assms by (auto simp: filter_empty_conv where_id_user_def sql_int_js_int)

lemma create_row_fst_fail:
  "fails d (InsertInto t (date_f s) (value_f s) (user_f s)) = Some err \<Longrightarrow>
   fst (create_row t msg s d) = Inl err \<and> tables (snd (create_row t msg s d)) = tables d"
  by (simp add: create_row_def db_run_def)

lemma create_row_ok:
  assumes ins: "fails d (InsertInto t (date_f s) (value_f s) (user_f s)) = None"
    and sel: "fails d (SelectWhereIdUser t (js_int (next_id (tables d t))) (js_int (user_f s))) = None"
  shows "fst (create_row t msg s d) =
           Inr (RowObj \<lparr>id_col = next_id (tables d t), date_col = date_f s,
                        value_col = value_f s, user_col = user_f s\<rparr>)"
    and "tables (snd (create_row t msg s d)) =
           (tables d)(t := tables d t @
              [\<lparr>id_col = next_id (tables d t), date_col = date_f s,
                value_col = value_f s, user_col = user_f s\<rparr>])"
    and "fst (get_row t msg (js_int (user_f s)) (js_int (next_id (tables d t)))
               (snd (create_row t msg s d))) =
           Inr (RowObj \<lparr>id_col = next_id (tables d t), date_col = date_f s,
                        value_col = value_f s, user_col = user_f s\<rparr>)"
proof -
  let ?n = "next_id (tables d t)"
  let ?r = "\<lparr>id_col = ?n, date_col = date_f s, value_col = value_f s, user_col = user_f s\<rparr>"
  have fresh: "\<forall>r\<in>set (tables d t). id_col r \<noteq> ?n"
    using next_id_fresh by fastforce
  have flt: "filter (where_id_user (js_int ?n) (js_int (user_f s))) (tables d t @ [?r]) = [?r]"
    using filter_fresh_id [OF fresh] by (simp add: where_id_user_def sql_int_js_int)
  have run: "db_run (InsertInto t (date_f s) (value_f s) (user_f s)) d =
      (Inr ?n, d\<lparr>tables := (tables d)(t := tables d t @ [?r]),
                 issued := issued d @ [InsertInto t (date_f s) (value_f s) (user_f s)]\<rparr>)"
    using ins by (simp add: db_run_def Let_def)
  have cr: "create_row t msg s d =
      get_row t msg (js_int (user_f s)) (js_int ?n)
        (d\<lparr>tables := (tables d)(t := tables d t @ [?r]),
           issued := issued d @ [InsertInto t (date_f s) (value_f s) (user_f s)]\<rparr>)"
    by (simp add: create_row_def run)
  show "fst (create_row t msg s d) = Inr (RowObj ?r)"
    using sel flt by (simp add: cr get_row_fst)
  show "tables (snd (create_row t msg s d)) = (tables d)(t := tables d t @ [?r])"
    by (simp add: cr get_row_snd)
  show "fst (get_row t msg (js_int (user_f s)) (js_int ?n) (snd (create_row t msg s d))) =
      Inr (RowObj ?r)"
    using sel flt by (simp add: cr get_row_snd get_row_fst)
qed

text \<open>
  Claim C5. In each module, when the store accepts the INSERT and the SELECT of the
  read-back, \<^verbatim>\<open>create(record)\<close> appends the record under an id that no row of the table
  has, resolves with that persisted row (the fields of the record and the new id), and
  \<^verbatim>\<open>get\<close> with the record's user and the returned id yields the same row. When the
  store refuses the INSERT, \<^verbatim>\<open>create\<close> rejects with the store's error and no table
  changes.
\<close>

theorem create_round_trip:
  assumes "(create, get, t) \<in>
      {(createTemperature, getTemperature, Temperatures),
       (createSwitch, getSwitch, Switches),
       (createLight, getLight, Lights)}"
  shows "(fails d (InsertInto t (date_f s) (value_f s) (user_f s)) = None \<and>
          fails d (SelectWhereIdUser t (js_int (next_id (tables d t))) (js_int (user_f s))) = None
          \<longrightarrow>
            next_id (tables d t) \<notin> id_col ` set (tables d t) \<and>
            fst (create s d) =
              Inr (RowObj \<lparr>id_col = next_id (tables d t), date_col = date_f s,
                           value_col = value_f s, user_col = user_f s\<rparr>) \<and>
            tables (snd (create s d)) t = tables d t @
              [\<lparr>id_col = next_id (tables d t), date_col = date_f s,
                value_col = value_f s, user_col = user_f s\<rparr>] \<and>
            fst (get (js_int (user_f s)) (js_int (next_id (tables d t))) (snd (create s d))) =
              Inr (RowObj \<lparr>id_col = next_id (tables d t), date_col = date_f s,
                           value_col = value_f s, user_col = user_f s\<rparr>)) \<and>
         (\<forall>err. fails d (InsertInto t (date_f s) (value_f s) (user_f s)) = Some err \<longrightarrow>
            fst (create s d) = Inl err \<and> tables (snd (create s d)) = tables d)"
proof -
  have fresh: "next_id (tables d t) \<notin> id_col ` set (tables d t)"
    using next_id_fresh by fastforce
  have gen: "\<And>msg.
     (fails d (InsertInto t (date_f s) (value_f s) (user_f s)) = None \<and>
      fails d (SelectWhereIdUser t (js_int (next_id (tables d t))) (js_int (user_f s))) = None
      \<longrightarrow>
        fst (create_row t msg s d) =
          Inr (RowObj \<lparr>id_col = next_id (tables d t), date_col = date_f s,
                       value_col = value_f s, user_col = user_f s\<rparr>) \<and>
        tables (snd (create_row t msg s d)) t = tables d t @
          [\<lparr>id_col = next_id (tables d t), date_col = date_f s,
            value_col = value_f s, user_col = user_f s\<rparr>] \<and>
        fst (get_row t msg (js_int (user_f s)) (js_int (next_id (tables d t)))
               (snd (create_row t msg s d))) =
          Inr (RowObj \<lparr>id_col = next_id (tables d t), date_col = date_f s,
                       value_col = value_f s, user_col = user_f s\<rparr>)) \<and>
     (\<forall>err. fails d (InsertInto t (date_f s) (value_f s) (user_f s)) = Some err \<longrightarrow>
        fst (create_row t msg s d) = Inl err \<and> tables (snd (create_row t msg s d)) = tables d)"
    using create_row_ok [of d t s] create_row_fst_fail [of d t s] by simp
  from assms consider
      "create = createTemperature" "get = getTemperature" "t = Temperatures"
    | "create = createSwitch" "get = getSwitch" "t = Switches"
    | "create = createLight" "get = getLight" "t = Lights"
    by auto
  then show ?thesis
  proof cases
    case 1
    with gen [of "''Temperature not found.''"] fresh show ?thesis
      by (simp add: createTemperature_def getTemperature_def)
  next
    case 2
    with gen [of "''Switch not found.''"] fresh show ?thesis
      by (simp add: createSwitch_def getSwitch_def)
  next
    case 3
    with gen [of "''Light not found.''"] fresh show ?thesis
      by (simp add: createLight_def getLight_def)
  qed
qed


theorem create_round_trip_witness:
  "fst (createTemperature
         \<lparr>date_f = ''2023-02-01T12:00:00Z'', value_f = JNum (43 / 2), user_f = 1\<rparr> example_db) =
     Inr (RowObj \<lparr>id_col = 5, date_col = ''2023-02-01T12:00:00Z'',
                  value_col = JNum (43 / 2), user_col = 1\<rparr>) \<and>
   fst (getTemperature (JNum 1) (JNum 5)
         (snd (createTemperature
           \<lparr>date_f = ''2023-02-01T12:00:00Z'', value_f = JNum (43 / 2), user_f = 1\<rparr>
           example_db))) =
     Inr (RowObj \<lparr>id_col = 5, date_col = ''2023-02-01T12:00:00Z'',
                  value_col = JNum (43 / 2), user_col = 1\<rparr>) \<and>
   fst (createTemperature
         \<lparr>date_f = ''2023-02-01T12:00:00Z'', value_f = JNum (43 / 2), user_f = 1\<rparr>
         (example_db\<lparr>fails := \<lambda>q. Some ''SQLITE_CONSTRAINT''\<rparr>)) =
     Inl ''SQLITE_CONSTRAINT''"
  using create_round_trip [of createTemperature getTemperature Temperatures example_db
      "\<lparr>date_f = ''2023-02-01T12:00:00Z'', value_f = JNum (43 / 2), user_f = 1\<rparr>"]
    create_round_trip [of createTemperature getTemperature Temperatures
      "example_db\<lparr>fails := \<lambda>q. Some ''SQLITE_CONSTRAINT''\<rparr>"
      "\<lparr>date_f = ''2023-02-01T12:00:00Z'', value_f = JNum (43 / 2), user_f = 1\<rparr>"]
  by (simp add: example_db_def next_id_def js_int_def)


section \<open>Updating\<close>

lemma update_row_eq:
  assumes "fails d (UpdateSet t (date_col s) (value_col s) i user) = None"
  shows "update_row t msg user i s d =
     get_row t msg (js_int (user_col s)) i
       (d\<lparr>tables := (tables d)(t := map (\<lambda>r. if where_id_user i user r
                  then r\<lparr>date_col := date_col s, value_col := value_col s\<rparr> else r) (tables d t)),
          issued := issued d @ [UpdateSet t (date_col s) (value_col s) i user]\<rparr>)"
  using assms by (simp add: update_row_def db_run_def)

lemma update_row_tables:
  assumes "fails d (UpdateSet t (date_col s) (value_col s) i user) = None"
  shows "tables (snd (update_row t msg user i s d)) =
     (tables d)(t := map (\<lambda>r. if where_id_user i user r
                  then r\<lparr>date_col := date_col s, value_col := value_col s\<rparr> else r) (tables d t))"
  by (simp add: update_row_eq [OF assms] get_row_snd)

lemma update_row_issued:
  assumes "fails d (UpdateSet t (date_col s) (value_col s) i user) = None"
  shows "issued (snd (update_row t msg user i s d)) =
     issued d @ [UpdateSet t (date_col s) (value_col s) i user,
                 SelectWhereIdUser t i (js_int (user_col s))]"
  by (simp add: update_row_eq [OF assms] get_row_snd)

lemma map_update_no_match:
  assumes "\<forall>r\<in>set rs. \<not> where_id_user i user r"
  shows "map (\<lambda>r. if where_id_user i user r then r\<lparr>date_col := dt, value_col := v\<rparr> else r) rs = rs"
  using assms by (induction rs) auto

lemma filter_update_other_user:
  assumes "sql_int user \<noteq> sql_int user'"
  shows "filter (where_id_user i' user')
           (map (\<lambda>r. if where_id_user i user r then r\<lparr>date_col := dt, value_col := v\<rparr> else r) rs)
         = filter (where_id_user i' user') rs"
  using assms by (induction rs) (auto simp: where_id_user_def)

lemma update_row_fst_other_user:
  assumes upd: "fails d (UpdateSet t (date_col s) (value_col s) i user) = None"
    and other: "sql_int user \<noteq> Some (user_col s)"
  shows "fst (update_row t msg user i s d) = fst (get_row t msg (js_int (user_col s)) i d)"
proof -
  have "sql_int user \<noteq> sql_int (js_int (user_col s))"
    using other by (simp add: sql_int_js_int)
  then show ?thesis
    by (simp add: update_row_eq [OF upd] get_row_fst filter_update_other_user split: option.splits)
qed

lemma update_row_fst_no_match:
  assumes upd: "fails d (UpdateSet t (date_col s) (value_col s) i user) = None"
    and none: "\<forall>r\<in>set (tables d t). \<not> where_id_user i user r"
  shows "fst (update_row t msg user i s d) = fst (get_row t msg (js_int (user_col s)) i d)"
    and "tables (snd (update_row t msg user i s d)) = tables d"
  by (simp_all add: update_row_eq [OF upd] get_row_fst get_row_snd map_update_no_match [OF none]
      split: option.splits)

text \<open>
  Claim C3. When no row of the table matches both id and user and the store accepts the
  UPDATE, \<^verbatim>\<open>update(user, id, record)\<close> changes no table and its outcome is the outcome
  of the \<^verbatim>\<open>get\<close> it ends with (called with the user of the record): nothing is
  derived from the write having affected no row.
\<close>

theorem update_without_match_is_get:
  assumes "(update, get, t) \<in>
      {(updateSwitch, getSwitch, Switches), (updateLight, getLight, Lights)}"
    and "fails d (UpdateSet t (date_col s) (value_col s) i user) = None"
    and "\<forall>r\<in>set (tables d t). \<not> where_id_user i user r"
  shows "fst (update user i s d) = fst (get (js_int (user_col s)) i d) \<and>
         tables (snd (update user i s d)) = tables d"
  using assms update_row_fst_no_match [of d t s i user]
  by (auto simp: updateSwitch_def getSwitch_def updateLight_def getLight_def)

theorem update_without_match_is_get_witness:
  "fst (updateLight (JNum 1) (JNum 9)
         \<lparr>id_col = 9, date_col = ''2023-02-01T12:00:00Z'', value_col = JNum 70, user_col = 1\<rparr>
         example_db) = Inr (ErrorObj ''Light not found.'') \<and>
   fst (updateSwitch (JNum 1) (JNum 5)
         \<lparr>id_col = 5, date_col = ''2023-02-01T12:00:00Z'', value_col = JBool True, user_col = 2\<rparr>
         example_db) =
     Inr (RowObj \<lparr>id_col = 5, date_col = ''2023-01-10T09:00:00Z'',
                  value_col = JBool False, user_col = 2\<rparr>) \<and>
   tables (snd (updateSwitch (JNum 1) (JNum 5)
         \<lparr>id_col = 5, date_col = ''2023-02-01T12:00:00Z'', value_col = JBool True, user_col = 2\<rparr>
         example_db)) = tables example_db"
  using update_without_match_is_get [of updateLight getLight Lights example_db
      "\<lparr>id_col = 9, date_col = ''2023-02-01T12:00:00Z'', value_col = JNum 70, user_col = 1\<rparr>"
      "JNum 9" "JNum 1"]
    update_without_match_is_get [of updateSwitch getSwitch Switches example_db
      "\<lparr>id_col = 5, date_col = ''2023-02-01T12:00:00Z'', value_col = JBool True, user_col = 2\<rparr>"
      "JNum 5" "JNum 1"]
  by (simp add: example_db_def getLight_def getSwitch_def get_row_fst where_id_user_def js_int_def)

text \<open>
  Claim C4. When the store accepts the UPDATE, the table keeps its length and its order;
  every row keeps its id and its user; a row matching id and user has its date and its
  value replaced by those of the record and is otherwise the same; every other row and
  every other table is unchanged.
\<close>

theorem update_changes_date_and_value_only:
  assumes "(update, t) \<in> {(updateSwitch, Switches), (updateLight, Lights)}"
    and "fails d (UpdateSet t (date_col s) (value_col s) i user) = None"
  shows "length (tables (snd (update user i s d)) t) = length (tables d t) \<and>
         (\<forall>k < length (tables d t).
            id_col (tables (snd (update user i s d)) t ! k) = id_col (tables d t ! k) \<and>
            user_col (tables (snd (update user i s d)) t ! k) = user_col (tables d t ! k) \<and>
            (if where_id_user i user (tables d t ! k)
             then tables (snd (update user i s d)) t ! k =
                    (tables d t ! k)\<lparr>date_col := date_col s, value_col := value_col s\<rparr>
             else tables (snd (update user i s d)) t ! k = tables d t ! k)) \<and>
         (\<forall>t'. t' \<noteq> t \<longrightarrow> tables (snd (update user i s d)) t' = tables d t')"
proof -
  have "tables (snd (update user i s d)) =
     (tables d)(t := map (\<lambda>r. if where_id_user i user r
                  then r\<lparr>date_col := date_col s, value_col := value_col s\<rparr> else r) (tables d t))"
    using assms update_row_tables [of d t s i user]
    by (auto simp: updateSwitch_def updateLight_def)
  then show ?thesis by simp
qed

theorem update_changes_date_and_value_only_witness:
  "tables (snd (updateSwitch (JNum 1) (JNum 4)
      \<lparr>id_col = 4, date_col = ''2023-02-01T12:00:00Z'', value_col = JBool False, user_col = 1\<rparr>
      example_db)) Switches =
     [\<lparr>id_col = 4, date_col = ''2023-02-01T12:00:00Z'', value_col = JBool False, user_col = 1\<rparr>,
      \<lparr>id_col = 5, date_col = ''2023-01-10T09:00:00Z'', value_col = JBool False, user_col = 2\<rparr>] \<and>
   tables (snd (updateSwitch (JNum 1) (JNum 4)
      \<lparr>id_col = 4, date_col = ''2023-02-01T12:00:00Z'', value_col = JBool False, user_col = 1\<rparr>
      example_db)) Lights = tables example_db Lights \<and>
   tables (snd (updateSwitch (JNum 1) (JNum 4)
      \<lparr>id_col = 4, date_col = ''2023-02-01T12:00:00Z'', value_col = JBool False, user_col = 1\<rparr>
      example_db)) Temperatures = tables example_db Temperatures"
  using update_changes_date_and_value_only [of updateSwitch Switches example_db
      "\<lparr>id_col = 4, date_col = ''2023-02-01T12:00:00Z'', value_col = JBool False, user_col = 1\<rparr>"
      "JNum 4" "JNum 1"]
  by (simp add: example_db_def updateSwitch_def update_row_eq get_row_snd where_id_user_def)

text \<open>
  Claim C10. \<^verbatim>\<open>updateSwitch(user, id, s)\<close> and \<^verbatim>\<open>updateLight(user, id, s)\<close> issue
  the UPDATE scoped to \<^verbatim>\<open>user\<close> and then the SELECT scoped to \<^verbatim>\<open>s.user\<close>. When the
  two users differ, the outcome is what \<^verbatim>\<open>get(s.user, id)\<close> yields on the store as it
  was before the call, and it is the not-found object when that user has no row with the
  id.
\<close>

theorem update_reads_back_under_record_user:
  assumes "(update, get, t, msg) \<in>
      {(updateSwitch, getSwitch, Switches, ''Switch not found.''),
       (updateLight, getLight, Lights, ''Light not found.'')}"
    and "fails d (UpdateSet t (date_col s) (value_col s) i user) = None"
  shows "new_stmts d (snd (update user i s d)) =
           [UpdateSet t (date_col s) (value_col s) i user,
            SelectWhereIdUser t i (js_int (user_col s))] \<and>
         (sql_int user \<noteq> Some (user_col s) \<longrightarrow>
            fst (update user i s d) = fst (get (js_int (user_col s)) i d) \<and>
            (fails d (SelectWhereIdUser t i (js_int (user_col s))) = None \<and>
             (\<forall>r\<in>set (tables d t). \<not> where_id_user i (js_int (user_col s)) r) \<longrightarrow>
               fst (update user i s d) = Inr (ErrorObj msg)))"
proof -
  have gen: "new_stmts d (snd (update_row t msg user i s d)) =
           [UpdateSet t (date_col s) (value_col s) i user,
            SelectWhereIdUser t i (js_int (user_col s))] \<and>
         (sql_int user \<noteq> Some (user_col s) \<longrightarrow>
            fst (update_row t msg user i s d) = fst (get_row t msg (js_int (user_col s)) i d) \<and>
            (fails d (SelectWhereIdUser t i (js_int (user_col s))) = None \<and>
             (\<forall>r\<in>set (tables d t). \<not> where_id_user i (js_int (user_col s)) r) \<longrightarrow>
               fst (update_row t msg user i s d) = Inr (ErrorObj msg)))"
    using update_row_issued [OF assms(2)] update_row_fst_other_user [OF assms(2)]
    by (auto simp: new_stmts_def get_row_fst filter_empty_conv)
  with assms(1) show ?thesis
    by (auto simp: updateSwitch_def getSwitch_def updateLight_def getLight_def)
qed


theorem update_reads_back_under_record_user_witness:
  "new_stmts example_db (snd (updateLight (JNum 1) (JNum 3)
      \<lparr>id_col = 3, date_col = ''2023-02-01T12:00:00Z'', value_col = JNum 70, user_col = 2\<rparr>
      example_db)) =
     [UpdateSet Lights ''2023-02-01T12:00:00Z'' (JNum 70) (JNum 3) (JNum 1),
      SelectWhereIdUser Lights (JNum 3) (JNum 2)] \<and>
   fst (updateLight (JNum 1) (JNum 3)
      \<lparr>id_col = 3, date_col = ''2023-02-01T12:00:00Z'', value_col = JNum 70, user_col = 2\<rparr>
      example_db) = Inr (ErrorObj ''Light not found.'') \<and>
   fst (getLight (JNum 1) (JNum 3) (snd (updateLight (JNum 1) (JNum 3)
      \<lparr>id_col = 3, date_col = ''2023-02-01T12:00:00Z'', value_col = JNum 70, user_col = 2\<rparr>
      example_db))) =
     Inr (RowObj \<lparr>id_col = 3, date_col = ''2023-02-01T12:00:00Z'',
                  value_col = JNum 70, user_col = 1\<rparr>)"
  using update_reads_back_under_record_user [of updateLight getLight Lights
      "''Light not found.''" example_db
      "\<lparr>id_col = 3, date_col = ''2023-02-01T12:00:00Z'', value_col = JNum 70, user_col = 2\<rparr>"
      "JNum 3" "JNum 1"]
  by (simp add: example_db_def getLight_def updateLight_def update_row_eq get_row_fst get_row_snd
      where_id_user_def js_int_def)

section \<open>Owner isolation\<close>

text \<open>
  What the operations other than the read-back of \<^verbatim>\<open>update\<close> do with the user
  argument: with ids unique in the table, \<^verbatim>\<open>get\<close> for another user than the owner of
  a row yields the not-found object; \<^verbatim>\<open>list\<close> yields rows of the user only;
  \<^verbatim>\<open>delete\<close> keeps every row that does not match id and user; and every write keeps
  the ids of a table unique.
\<close>

lemma get_row_other_user:
  assumes ids: "distinct (map id_col (tables d t))"
    and r: "r \<in> set (tables d t)"
    and other: "sql_int u2 \<noteq> Some (user_col r)"
    and ok: "fails d (SelectWhereIdUser t (js_int (id_col r)) u2) = None"
  shows "fst (get_row t msg u2 (js_int (id_col r)) d) = Inr (ErrorObj msg)"
proof -
  have "\<not> where_id_user (js_int (id_col r)) u2 r'" if r': "r' \<in> set (tables d t)" for r'
  proof
    assume m: "where_id_user (js_int (id_col r)) u2 r'"
    then have "id_col r' = id_col r"
      by (simp add: where_id_user_def sql_int_js_int)
    with ids r r' have "r' = r"
      by (meson distinct_map inj_on_eq_iff)
    with m other show False by (simp add: where_id_user_def)
  qed
  then have "filter (where_id_user (js_int (id_col r)) u2) (tables d t) = []"
    by (simp add: filter_empty_conv)
  with ok show ?thesis by (simp add: get_row_fst)
qed

lemma list_rows_owned:
  assumes "fst (list_rows t user d) = Inr rs"
  shows "\<forall>r\<in>set rs. sql_int user = Some (user_col r)"
  using assms
  by (auto simp: list_rows_def db_all_def where_user_def split: option.splits)

lemma delete_row_keeps_other_rows:
  "filter (\<lambda>r. \<not> where_id_user i user r) (tables (snd (delete_row t user i d)) t')
     = filter (\<lambda>r. \<not> where_id_user i user r) (tables d t')"
  by (simp add: delete_row_snd split: option.splits)

lemma perform_distinct_ids:
  assumes "distinct (map id_col (tables d t'))"
  shows "distinct (map id_col (fst (perform q d) t'))"
proof (cases q)
  case (InsertInto t dt v u)
  have "next_id (tables d t) \<notin> id_col ` set (tables d t)"
    using next_id_fresh by fastforce
  with assms InsertInto show ?thesis by (auto simp: Let_def)
next
  case (UpdateSet t dt v i u)
  have "id_col \<circ> (\<lambda>r. if where_id_user i u r
          then r\<lparr>date_col := dt, value_col := v\<rparr> else r) = id_col"
    by (auto simp: fun_eq_iff)
  with assms UpdateSet show ?thesis by auto
next
  case (DeleteFrom t i u)
  with assms show ?thesis by (auto simp: distinct_map_filter)
qed (use assms in simp_all)

text \<open>
  Claim C1. The claim says that no operation returns a row whose user differs from the
  user argument. \<^verbatim>\<open>updateSwitch\<close> called for user 1 with id 5 and a record whose user
  field is 2 resolves with the switch 5 of user 2: the read-back filters by the user
  field of the record, not by the user argument.
\<close>

theorem update_returns_row_of_other_user:
  "fst (updateSwitch (JNum 1) (JNum 5)
         \<lparr>id_col = 5, date_col = ''2023-02-01T12:00:00Z'', value_col = JBool True, user_col = 2\<rparr>
         example_db) =
     Inr (RowObj \<lparr>id_col = 5, date_col = ''2023-01-10T09:00:00Z'',
                  value_col = JBool False, user_col = 2\<rparr>)"
  by (simp add: example_db_def updateSwitch_def update_row_eq get_row_fst where_id_user_def
      js_int_def)

section \<open>The latest temperature\<close>

lemma latest_None: "latest rs = None \<longleftrightarrow> rs = []"
  by (induction rs) (auto split: option.splits)

lemma latest_Some:
  "latest rs = Some m \<Longrightarrow> m \<in> set rs \<and> (\<forall>r\<in>set rs. date_col r \<le> date_col m)"
proof (induction rs arbitrary: m)
  case Nil
  then show ?case by simp
next
  case (Cons x xs)
  show ?case
  proof (cases "latest xs")
    case None
    then have "xs = []" by (simp add: latest_None)
    with Cons.prems None show ?thesis by simp
  next
    case (Some m')
    then have ih: "m' \<in> set xs" "\<forall>r\<in>set xs. date_col r \<le> date_col m'"
      using Cons.IH by auto
    show ?thesis
    proof (cases "date_col m' \<le> date_col x")
      case True
      with Cons.prems Some have "m = x" by simp
      with ih True show ?thesis by auto
    next
      case False
      with Cons.prems Some have "m = m'" by simp
      with ih False show ?thesis by auto
    qed
  qed
qed

lemma getLastTemperature_fst:
  "fst (getLastTemperature user d) =
     (case fails d (SelectLastOfUser Temperatures user) of
        Some err \<Rightarrow> Inl err
      | None \<Rightarrow>
          Inr (case latest (filter (where_user user) (tables d Temperatures)) of
                 None \<Rightarrow> ErrorObj ''There is no temperature for this sensor!''
               | Some m \<Rightarrow> RowObj m))"
  by (simp add: getLastTemperature_def db_get_def split: option.splits list.splits)

lemma get_temperatures_last_fst:
  "fst (get_temperatures_last e req d) =
     (case fst (getLastTemperature (JNum 1) d) of
        Inl err \<Rightarrow> Reply 500 None
      | Inr result \<Rightarrow>
          if has_error result then Reply 404 (Some (Obj result))
          else Reply 200 (Some (Obj result)))"
  by (simp add: get_temperatures_last_def split: prod.splits sum.splits)

lemma getLastTemperature_owned:
  assumes "fst (getLastTemperature user d) = Inr (RowObj r)"
  shows "r \<in> set (tables d Temperatures) \<and> sql_int user = Some (user_col r)"
proof -
  from assms have "latest (filter (where_user user) (tables d Temperatures)) = Some r"
    by (auto simp: getLastTemperature_fst split: option.splits)
  from latest_Some [OF this] show ?thesis by (simp add: where_user_def)
qed

text \<open>
  Claim C8. When the store accepts the statement, \<^verbatim>\<open>getLastTemperature(user)\<close> resolves
  with a temperature row of that user whose date no other row of that user exceeds, and
  with the object \<^verbatim>\<open>{ error: 'There is no temperature for this sensor!' }\<close> when the
  user has no row; the handler of \<^verbatim>\<open>GET /api/temperatures/last\<close> (which asks for
  user 1) answers that object with status 404. Dates are ordered as the store orders the
  column, as text; the timestamps the handlers write have one fixed-width UTC format, for
  which this is the order of time.
\<close>

theorem getLastTemperature_latest_of_user:
  assumes "fails d (SelectLastOfUser Temperatures user) = None"
  shows "((\<forall>r\<in>set (tables d Temperatures). \<not> where_user user r) \<longrightarrow>
            fst (getLastTemperature user d) =
              Inr (ErrorObj ''There is no temperature for this sensor!'') \<and>
            (user = JNum 1 \<longrightarrow>
               fst (get_temperatures_last e req d) =
                 Reply 404 (Some (Obj (ErrorObj ''There is no temperature for this sensor!''))))) \<and>
         ((\<exists>r\<in>set (tables d Temperatures). where_user user r) \<longrightarrow>
            (\<exists>m\<in>set (tables d Temperatures).
               where_user user m \<and>
               fst (getLastTemperature user d) = Inr (RowObj m) \<and>
               (\<forall>r\<in>set (tables d Temperatures).
                  where_user user r \<longrightarrow> date_col r \<le> date_col m)))"
proof (intro conjI impI)
  assume none: "\<forall>r\<in>set (tables d Temperatures). \<not> where_user user r"
  then have "filter (where_user user) (tables d Temperatures) = []"
    by (simp add: filter_empty_conv)
  with assms show nf: "fst (getLastTemperature user d) =
      Inr (ErrorObj ''There is no temperature for this sensor!'')"
    by (simp add: getLastTemperature_fst)
  assume "user = JNum 1"
  with nf show "fst (get_temperatures_last e req d) =
      Reply 404 (Some (Obj (ErrorObj ''There is no temperature for this sensor!'')))"
    by (simp add: get_temperatures_last_fst)
next
  let ?own = "filter (where_user user) (tables d Temperatures)"
  assume "\<exists>r\<in>set (tables d Temperatures). where_user user r"
  then have "?own \<noteq> []" by (simp add: filter_empty_conv)
  then obtain m where m: "latest ?own = Some m"
    using latest_None [of ?own] by (cases "latest ?own") auto
  from latest_Some [OF m] have "m \<in> set (tables d Temperatures)" "where_user user m"
    and "\<forall>r\<in>set (tables d Temperatures). where_user user r \<longrightarrow> date_col r \<le> date_col m"
    by auto
  moreover have "fst (getLastTemperature user d) = Inr (RowObj m)"
    using assms m by (simp add: getLastTemperature_fst)
  ultimately show "\<exists>m\<in>set (tables d Temperatures).
      where_user user m \<and> fst (getLastTemperature user d) = Inr (RowObj m) \<and>
      (\<forall>r\<in>set (tables d Temperatures). where_user user r \<longrightarrow> date_col r \<le> date_col m)"
    by blast
qed

theorem getLastTemperature_latest_of_user_witness:
  "fst (getLastTemperature (JNum 1) example_db) =
     Inr (RowObj \<lparr>id_col = 2, date_col = ''2023-01-12T08:00:00Z'',
                  value_col = JNum 21, user_col = 1\<rparr>) \<and>
   fst (getLastTemperature (JNum 7) example_db) =
     Inr (ErrorObj ''There is no temperature for this sensor!'') \<and>
   fst (get_temperatures_last example_env example_request
          (example_db\<lparr>tables := \<lambda>t. []\<rparr>)) =
     Reply 404 (Some (Obj (ErrorObj ''There is no temperature for this sensor!'')))"
  using getLastTemperature_latest_of_user [of example_db "JNum 1" example_env example_request]
    getLastTemperature_latest_of_user [of example_db "JNum 7" example_env example_request]
    getLastTemperature_latest_of_user [of "example_db\<lparr>tables := \<lambda>t. []\<rparr>" "JNum 1"
      example_env example_request]
  by (simp add: example_db_def where_user_def getLastTemperature_fst less_eq_char_def
      less_char_def list_le_def)


section \<open>The PUT handlers and the id of the body\<close>

text \<open>
  Claim C9. For \<^verbatim>\<open>PUT /api/switches/:id\<close> and \<^verbatim>\<open>PUT /api/lights/:id\<close>: when the
  validation of the route reports no error and the id of the body is not strictly equal
  to \<^verbatim>\<open>Number(req.params.id)\<close>, the response is 422 with
  \<^verbatim>\<open>{ error: 'URL and body id mismatch' }\<close> and the store is left as it was, with no
  statement issued.
\<close>

theorem put_id_mismatch:
  assumes "(put, checks) \<in>
      {(put_switches_id, [IsInt ''id'', IsBoolean ''value'']),
       (put_lights_id, [IsInt ''id'', IsInt ''value''])}"
    and "validation e checks (params_id req) (body req) = []"
    and "strict_neq (b_id (body req)) (Number e (params_id req))"
  shows "put e req d = (Reply 422 (Some (Obj (ErrorObj ''URL and body id mismatch''))), d)"
  using assms by (auto simp: put_switches_id_def put_lights_id_def)

theorem put_id_mismatch_witness:
  "put_switches_id example_env
     \<lparr>params_id = ''5'',
      body = \<lparr>b_id = JNum 7, b_user = JNum 1, b_value = JBool True,
               b_username = JUndefined, b_password = JUndefined\<rparr>,
      session_user = None\<rparr> example_db =
     (Reply 422 (Some (Obj (ErrorObj ''URL and body id mismatch''))), example_db)"
  using put_id_mismatch [of put_switches_id "[IsInt ''id'', IsBoolean ''value'']" example_env
      "\<lparr>params_id = ''5'',
        body = \<lparr>b_id = JNum 7, b_user = JNum 1, b_value = JBool True,
                 b_username = JUndefined, b_password = JUndefined\<rparr>,
        session_user = None\<rparr>" example_db]
  by (simp add: example_env_def strict_neq_def decimal_def is_digit_def js_int_def example_db_def)

section \<open>Login\<close>

lemma getUser_unknown:
  "\<forall>a\<in>set accounts. JStr (username (account_user a)) \<noteq> un \<Longrightarrow>
   getUser chk accounts un pw = None"
proof -
  assume "\<forall>a\<in>set accounts. JStr (username (account_user a)) \<noteq> un"
  then have "find (\<lambda>a. JStr (username (account_user a)) = un) accounts = None"
    by (simp add: find_None_iff)
  then show ?thesis by (simp add: getUser_def)
qed

lemma post_sessions_missing:
  "falsy (b_username (body req)) \<or> falsy (b_password (body req)) \<Longrightarrow>
   post_sessions chk accounts login req =
     (Reply 401 (Some (ErrorMessageObj ''Missing credentials'')), session_user req)"
  by (simp add: post_sessions_def authenticate_local_def sessions_callback_def)

lemma post_sessions_present:
  "\<not> falsy (b_username (body req)) \<Longrightarrow> \<not> falsy (b_password (body req)) \<Longrightarrow>
   post_sessions chk accounts login req =
     (case getUser chk accounts (b_username (body req)) (b_password (body req)) of
        None \<Rightarrow>
          (Reply 401 (Some (Obj (ErrorObj ''Incorrect username or password''))), session_user req)
      | Some u \<Rightarrow>
          (case login u of
             Some err \<Rightarrow> (Next err, session_user req)
           | None \<Rightarrow> (Reply 200 (Some (UserObj u)), Some u)))"
  by (simp add: post_sessions_def authenticate_local_def sessions_callback_def verify_def
      split: option.splits)

text \<open>
  Claim C7, as stated, fails on a login that lacks a credential: the known username with
  an empty password matches no stored credential pair, and it is answered 401 with
  \<^verbatim>\<open>{ error: { message: 'Missing credentials' } }\<close>, not with
  \<^verbatim>\<open>{ error: 'Incorrect username or password' }\<close>.
\<close>

theorem login_empty_password_counterexample:
  "getUser example_check example_accounts (JStr ''u1@p.it'') (JStr []) = None \<and>
   post_sessions example_check example_accounts example_login
     (example_request\<lparr>body := (body example_request)
        \<lparr>b_username := JStr ''u1@p.it'', b_password := JStr []\<rparr>\<rparr>) =
     (Reply 401 (Some (ErrorMessageObj ''Missing credentials'')), None)"
  by (simp add: getUser_def example_accounts_def example_request_def post_sessions_def
      authenticate_local_def sessions_callback_def example_check_def example_login_def)

text \<open>
  Claim C7, amended. A login whose username or password is absent or empty is answered
  401 with \<^verbatim>\<open>{ error: { message: 'Missing credentials' } }\<close>. A login with both
  present that matches no stored credential pair is answered 401 with
  \<^verbatim>\<open>{ error: 'Incorrect username or password' }\<close>; an unknown username and a known
  username with a refused password are both such logins. Every login that is refused in
  one of these ways leaves the session as it was, and its answer is the same under any
  two stores of accounts that both refuse it: it does not tell whether the username
  exists. A login with both present whose username is found and whose password is
  accepted is answered 200 with the user (id, username, name), who becomes the user of
  the session, when the session is established; when establishing it reports an error,
  the error is handed on.
\<close>

theorem login_answers:
  "(falsy (b_username (body req)) \<or> falsy (b_password (body req)) \<longrightarrow>
      post_sessions chk accounts login req =
        (Reply 401 (Some (ErrorMessageObj ''Missing credentials'')), session_user req)) \<and>
   (\<not> falsy (b_username (body req)) \<and> \<not> falsy (b_password (body req)) \<and>
    getUser chk accounts (b_username (body req)) (b_password (body req)) = None \<longrightarrow>
      post_sessions chk accounts login req =
        (Reply 401 (Some (Obj (ErrorObj ''Incorrect username or password''))), session_user req)) \<and>
   ((\<forall>a\<in>set accounts. JStr (username (account_user a)) \<noteq> b_username (body req)) \<longrightarrow>
      getUser chk accounts (b_username (body req)) (b_password (body req)) = None) \<and>
   (\<forall>a. find (\<lambda>a. JStr (username (account_user a)) = b_username (body req)) accounts = Some a \<and>
        \<not> chk (b_password (body req)) (credential a) \<longrightarrow>
      getUser chk accounts (b_username (body req)) (b_password (body req)) = None) \<and>
   ((falsy (b_username (body req)) \<or> falsy (b_password (body req)) \<or>
     (getUser chk accounts (b_username (body req)) (b_password (body req)) = None \<and>
      getUser chk accounts' (b_username (body req)) (b_password (body req)) = None)) \<longrightarrow>
      post_sessions chk accounts login req = post_sessions chk accounts' login req) \<and>
   (\<forall>a. \<not> falsy (b_username (body req)) \<and> \<not> falsy (b_password (body req)) \<and>
        find (\<lambda>a. JStr (username (account_user a)) = b_username (body req)) accounts = Some a \<and>
        chk (b_password (body req)) (credential a) \<longrightarrow>
      (login (account_user a) = None \<longrightarrow>
         post_sessions chk accounts login req =
           (Reply 200 (Some (UserObj (account_user a))), Some (account_user a))) \<and>
      (\<forall>err. login (account_user a) = Some err \<longrightarrow>
         post_sessions chk accounts login req = (Next err, session_user req)))"
proof (intro conjI impI allI)
  assume "falsy (b_username (body req)) \<or> falsy (b_password (body req))"
  then show "post_sessions chk accounts login req =
      (Reply 401 (Some (ErrorMessageObj ''Missing credentials'')), session_user req)"
    by (rule post_sessions_missing)
next
  assume "\<not> falsy (b_username (body req)) \<and> \<not> falsy (b_password (body req)) \<and>
    getUser chk accounts (b_username (body req)) (b_password (body req)) = None"
  then show "post_sessions chk accounts login req =
      (Reply 401 (Some (Obj (ErrorObj ''Incorrect username or password''))), session_user req)"
    by (simp add: post_sessions_present)
next
  assume "\<forall>a\<in>set accounts. JStr (username (account_user a)) \<noteq> b_username (body req)"
  then show "getUser chk accounts (b_username (body req)) (b_password (body req)) = None"
    by (rule getUser_unknown)
next
  fix a
  assume "find (\<lambda>a. JStr (username (account_user a)) = b_username (body req)) accounts = Some a \<and>
        \<not> chk (b_password (body req)) (credential a)"
  then show "getUser chk accounts (b_username (body req)) (b_password (body req)) = None"
    by (simp add: getUser_def)
next
  assume "falsy (b_username (body req)) \<or> falsy (b_password (body req)) \<or>
     (getUser chk accounts (b_username (body req)) (b_password (body req)) = None \<and>
      getUser chk accounts' (b_username (body req)) (b_password (body req)) = None)"
  then show "post_sessions chk accounts login req = post_sessions chk accounts' login req"
    by (cases "falsy (b_username (body req)) \<or> falsy (b_password (body req))")
      (auto simp: post_sessions_missing post_sessions_present)
next
  fix a
  assume h: "\<not> falsy (b_username (body req)) \<and> \<not> falsy (b_password (body req)) \<and>
        find (\<lambda>a. JStr (username (account_user a)) = b_username (body req)) accounts = Some a \<and>
        chk (b_password (body req)) (credential a)"
  then have g: "getUser chk accounts (b_username (body req)) (b_password (body req)) =
      Some (account_user a)"
    by (simp add: getUser_def)
  {
    assume "login (account_user a) = None"
    with h g show "post_sessions chk accounts login req =
        (Reply 200 (Some (UserObj (account_user a))), Some (account_user a))"
      by (simp add: post_sessions_present)
  }
  {
    fix err
    assume "login (account_user a) = Some err"
    with h g show "post_sessions chk accounts login req = (Next err, session_user req)"
      by (simp add: post_sessions_present)
  }
qed

theorem login_answers_witness:
  "post_sessions example_check example_accounts example_login
     (example_request\<lparr>body := (body example_request)
        \<lparr>b_username := JStr ''nobody'', b_password := JUndefined\<rparr>\<rparr>) =
     (Reply 401 (Some (ErrorMessageObj ''Missing credentials'')), None) \<and>
   post_sessions example_check example_accounts example_login
     (example_request\<lparr>body := (body example_request)
        \<lparr>b_username := JStr ''nobody'', b_password := JStr ''pwd''\<rparr>\<rparr>) =
     (Reply 401 (Some (Obj (ErrorObj ''Incorrect username or password''))), None) \<and>
   post_sessions example_check example_accounts example_login
     (example_request\<lparr>body := (body example_request)
        \<lparr>b_username := JStr ''u1@p.it'', b_password := JStr ''wrong''\<rparr>\<rparr>) =
     (Reply 401 (Some (Obj (ErrorObj ''Incorrect username or password''))), None) \<and>
   post_sessions example_check example_accounts example_login
     (example_request\<lparr>body := (body example_request)
        \<lparr>b_username := JStr ''u1@p.it'', b_password := JStr ''wrong''\<rparr>\<rparr>) =
   post_sessions example_check [] example_login
     (example_request\<lparr>body := (body example_request)
        \<lparr>b_username := JStr ''u1@p.it'', b_password := JStr ''wrong''\<rparr>\<rparr>) \<and>
   post_sessions example_check example_accounts example_login
     (example_request\<lparr>body := (body example_request)
        \<lparr>b_username := JStr ''u1@p.it'', b_password := JStr ''pwd''\<rparr>\<rparr>) =
     (Reply 200 (Some (UserObj \<lparr>user_id = 1, username = ''u1@p.it'', name = ''John''\<rparr>)),
      Some \<lparr>user_id = 1, username = ''u1@p.it'', name = ''John''\<rparr>) \<and>
   post_sessions example_check example_accounts example_login_error
     (example_request\<lparr>body := (body example_request)
        \<lparr>b_username := JStr ''u1@p.it'', b_password := JStr ''pwd''\<rparr>\<rparr>) =
     (Next ''no session'', None)"
proof -
  have a: "post_sessions example_check example_accounts example_login
     (example_request\<lparr>body := (body example_request)
        \<lparr>b_username := JStr ''nobody'', b_password := JUndefined\<rparr>\<rparr>) =
     (Reply 401 (Some (ErrorMessageObj ''Missing credentials'')), None)"
    using login_answers [where chk = example_check and accounts = example_accounts
        and accounts' = "[]" and login = example_login
        and req = "example_request\<lparr>body := (body example_request)
          \<lparr>b_username := JStr ''nobody'', b_password := JUndefined\<rparr>\<rparr>"]
    by (simp add: example_accounts_def example_request_def getUser_def example_check_def
      example_login_def example_login_error_def)
  have b: "post_sessions example_check example_accounts example_login
     (example_request\<lparr>body := (body example_request)
        \<lparr>b_username := JStr ''nobody'', b_password := JStr ''pwd''\<rparr>\<rparr>) =
     (Reply 401 (Some (Obj (ErrorObj ''Incorrect username or password''))), None)"
    using login_answers [where chk = example_check and accounts = example_accounts
        and accounts' = "[]" and login = example_login
        and req = "example_request\<lparr>body := (body example_request)
          \<lparr>b_username := JStr ''nobody'', b_password := JStr ''pwd''\<rparr>\<rparr>"]
    by (simp add: example_accounts_def example_request_def getUser_def example_check_def
      example_login_def example_login_error_def)
  have c: "post_sessions example_check example_accounts example_login
     (example_request\<lparr>body := (body example_request)
        \<lparr>b_username := JStr ''u1@p.it'', b_password := JStr ''wrong''\<rparr>\<rparr>) =
     (Reply 401 (Some (Obj (ErrorObj ''Incorrect username or password''))), None)"
    using login_answers [where chk = example_check and accounts = example_accounts
        and accounts' = "[]" and login = example_login
        and req = "example_request\<lparr>body := (body example_request)
          \<lparr>b_username := JStr ''u1@p.it'', b_password := JStr ''wrong''\<rparr>\<rparr>"]
    by (simp add: example_accounts_def example_request_def getUser_def example_check_def
      example_login_def example_login_error_def)
  have d: "post_sessions example_check example_accounts example_login
     (example_request\<lparr>body := (body example_request)
        \<lparr>b_username := JStr ''u1@p.it'', b_password := JStr ''wrong''\<rparr>\<rparr>) =
   post_sessions example_check [] example_login
     (example_request\<lparr>body := (body example_request)
        \<lparr>b_username := JStr ''u1@p.it'', b_password := JStr ''wrong''\<rparr>\<rparr>)"
    using login_answers [where chk = example_check and accounts = example_accounts
        and accounts' = "[]" and login = example_login
        and req = "example_request\<lparr>body := (body example_request)
          \<lparr>b_username := JStr ''u1@p.it'', b_password := JStr ''wrong''\<rparr>\<rparr>"]
    by (simp (no_asm_use) add: example_accounts_def example_request_def getUser_def
      example_check_def example_login_def) blast
  have e: "post_sessions example_check example_accounts example_login
     (example_request\<lparr>body := (body example_request)
        \<lparr>b_username := JStr ''u1@p.it'', b_password := JStr ''pwd''\<rparr>\<rparr>) =
     (Reply 200 (Some (UserObj \<lparr>user_id = 1, username = ''u1@p.it'', name = ''John''\<rparr>)),
      Some \<lparr>user_id = 1, username = ''u1@p.it'', name = ''John''\<rparr>)"
    using login_answers [where chk = example_check and accounts = example_accounts
        and accounts' = "[]" and login = example_login
        and req = "example_request\<lparr>body := (body example_request)
          \<lparr>b_username := JStr ''u1@p.it'', b_password := JStr ''pwd''\<rparr>\<rparr>"]
    by (simp add: example_accounts_def example_request_def getUser_def example_check_def
      example_login_def example_login_error_def)
  have f: "post_sessions example_check example_accounts example_login_error
     (example_request\<lparr>body := (body example_request)
        \<lparr>b_username := JStr ''u1@p.it'', b_password := JStr ''pwd''\<rparr>\<rparr>) =
     (Next ''no session'', None)"
    using login_answers [where chk = example_check and accounts = example_accounts
        and accounts' = "[]" and login = example_login_error
        and req = "example_request\<lparr>body := (body example_request)
          \<lparr>b_username := JStr ''u1@p.it'', b_password := JStr ''pwd''\<rparr>\<rparr>"]
    by (simp add: example_accounts_def example_request_def getUser_def example_check_def
      example_login_def example_login_error_def)
  from a b c d e f show ?thesis by blast
qed

section \<open>The user the routes pass to the store\<close>

lemma new_stmts_append: "issued d' = issued d @ xs \<Longrightarrow> new_stmts d d' = xs"
  by (simp add: new_stmts_def)

lemma list_rows_snd:
  "snd (list_rows t user d) = d\<lparr>issued := issued d @ [SelectWhereUser t user]\<rparr>"
  by (simp add: list_rows_def db_all_def split: option.splits)

lemma getLastTemperature_snd:
  "snd (getLastTemperature user d) = d\<lparr>issued := issued d @ [SelectLastOfUser Temperatures user]\<rparr>"
  by (simp add: getLastTemperature_def db_get_def split: option.splits list.splits)

lemma create_row_issued:
  "issued (snd (create_row t msg s d)) =
     issued d @
       (case fails d (InsertInto t (date_f s) (value_f s) (user_f s)) of
          Some err \<Rightarrow> [InsertInto t (date_f s) (value_f s) (user_f s)]
        | None \<Rightarrow> [InsertInto t (date_f s) (value_f s) (user_f s),
                    SelectWhereIdUser t (js_int (next_id (tables d t))) (js_int (user_f s))])"
  by (simp add: create_row_def db_run_def get_row_snd Let_def split: option.splits)

lemma update_row_issued_any:
  "issued (snd (update_row t msg user i s d)) =
     issued d @
       (case fails d (UpdateSet t (date_col s) (value_col s) i user) of
          Some err \<Rightarrow> [UpdateSet t (date_col s) (value_col s) i user]
        | None \<Rightarrow> [UpdateSet t (date_col s) (value_col s) i user,
                    SelectWhereIdUser t i (js_int (user_col s))])"
  by (simp add: update_row_def db_run_def get_row_snd split: option.splits)

lemma get_row_RowObj:
  assumes "fst (get_row t msg user i d) = Inr (RowObj r)"
  shows "where_id_user i user r \<and> r \<in> set (tables d t)"
proof -
  from assms obtain rs where "filter (where_id_user i user) (tables d t) = r # rs"
    by (auto simp: get_row_fst split: option.splits list.splits)
  then have "r \<in> set (filter (where_id_user i user) (tables d t))" by simp
  then show ?thesis by simp
qed

lemma list_rows_issuedD:
  "list_rows t user d = (res, d') \<Longrightarrow> issued d' = issued d @ [SelectWhereUser t user]"
  using list_rows_snd [of t user d] by simp

lemma getLastTemperature_issuedD:
  "getLastTemperature user d = (res, d') \<Longrightarrow>
   issued d' = issued d @ [SelectLastOfUser Temperatures user]"
  using getLastTemperature_snd [of user d] by simp

lemma get_row_issuedD:
  "get_row t msg user i d = (res, d') \<Longrightarrow> issued d' = issued d @ [SelectWhereIdUser t i user]"
  using get_row_snd [of t msg user i d] by simp

lemma delete_row_issuedD:
  "delete_row t user i d = (res, d') \<Longrightarrow> issued d' = issued d @ [DeleteFrom t i user]"
  using delete_row_snd [of t user i d] by (auto split: option.splits)

lemma create_row_issuedD:
  "create_row t msg s d = (res, d') \<Longrightarrow>
   \<exists>xs. issued d' = issued d @ xs \<and> (\<forall>q\<in>set xs. stmt_user q = js_int (user_f s))"
  using create_row_issued [of t msg s d] by (auto split: option.splits)

lemma update_row_issuedD:
  "update_row t msg user i s d = (res, d') \<Longrightarrow>
   \<exists>xs. issued d' = issued d @ xs \<and>
        (\<forall>q\<in>set xs. stmt_user q = user \<or> stmt_user q = js_int (user_col s))"
  using update_row_issued_any [of t msg user i s d] by (auto split: option.splits)

lemma get_temperatures_stmts:
  "new_stmts d (snd (get_temperatures e req d)) = [SelectWhereUser Temperatures (JNum 1)]"
  by (auto simp: get_temperatures_def listTemperatures_def new_stmts_def
      split: prod.splits sum.splits dest!: list_rows_issuedD)

lemma get_temperatures_last_stmts:
  "new_stmts d (snd (get_temperatures_last e req d)) = [SelectLastOfUser Temperatures (JNum 1)]"
  by (auto simp: get_temperatures_last_def new_stmts_def
      split: prod.splits sum.splits dest!: getLastTemperature_issuedD)

lemma get_temperatures_id_stmts:
  "new_stmts d (snd (get_temperatures_id e req d)) =
     [SelectWhereIdUser Temperatures (JStr (params_id req)) (JNum 1)]"
  by (auto simp: get_temperatures_id_def getTemperature_def new_stmts_def
      split: prod.splits sum.splits dest!: get_row_issuedD)

lemma get_switches_id_stmts:
  "new_stmts d (snd (get_switches_id e req d)) =
     [SelectWhereIdUser Switches (JStr (params_id req)) (JNum 1)]"
  by (auto simp: get_switches_id_def getSwitch_def new_stmts_def
      split: prod.splits sum.splits dest!: get_row_issuedD)

lemma get_lights_id_stmts:
  "new_stmts d (snd (get_lights_id e req d)) =
     [SelectWhereIdUser Lights (JStr (params_id req)) (JNum 1)]"
  by (auto simp: get_lights_id_def getLight_def new_stmts_def
      split: prod.splits sum.splits dest!: get_row_issuedD)

lemma delete_temperatures_id_stmts:
  "new_stmts d (snd (delete_temperatures_id e req d)) =
     [DeleteFrom Temperatures (JStr (params_id req)) (JNum 1)]"
  by (auto simp: delete_temperatures_id_def deleteTemperature_def new_stmts_def
      split: prod.splits sum.splits dest!: delete_row_issuedD)

lemma post_temperatures_stmts:
  "\<forall>q\<in>set (new_stmts d (snd (post_temperatures e req d))). stmt_user q = JNum 1"
  by (auto simp: post_temperatures_def createTemperature_def new_stmts_def Let_def js_int_def
      split: prod.splits sum.splits dest!: create_row_issuedD)

lemma put_stmts_generic:
  assumes get: "get_row t msg (b_user (body req)) (b_id (body req)) d = (Inr (RowObj s0), d1)"
    and upd: "update_row t msg (b_user (body req)) (js_int (id_col s0))
                (s0\<lparr>date_col := dt, value_col := v\<rparr>) d1 = (res, d2)"
  shows "\<forall>q\<in>set (new_stmts d d2).
           stmt_user q = b_user (body req) \<or>
           (\<exists>u. sql_int (b_user (body req)) = Some u \<and> stmt_user q = js_int u)"
proof -
  have own: "sql_int (b_user (body req)) = Some (user_col s0)"
    using get_row_RowObj [of t msg "b_user (body req)" "b_id (body req)" d s0] get
    by (simp add: where_id_user_def)
  from get_row_issuedD [OF get] have i1:
    "issued d1 = issued d @ [SelectWhereIdUser t (b_id (body req)) (b_user (body req))]" .
  from update_row_issuedD [OF upd] obtain xs where i2: "issued d2 = issued d1 @ xs"
    and xs: "\<forall>q\<in>set xs. stmt_user q = b_user (body req) \<or> stmt_user q = js_int (user_col s0)"
    by auto
  have "new_stmts d d2 = SelectWhereIdUser t (b_id (body req)) (b_user (body req)) # xs"
    by (simp add: new_stmts_def i1 i2)
  with xs own show ?thesis by auto
qed

lemma put_switches_id_stmts:
  "\<forall>q\<in>set (new_stmts d (snd (put_switches_id e req d))).
     stmt_user q = b_user (body req) \<or>
     (\<exists>u. sql_int (b_user (body req)) = Some u \<and> stmt_user q = js_int u)"
proof -
  have none: "new_stmts d d = []" by (simp add: new_stmts_def)
  show ?thesis
    unfolding put_switches_id_def getSwitch_def updateSwitch_def Let_def
    using put_stmts_generic [of Switches "''Switch not found.''" req d]
    by (auto simp: none new_stmts_append split: prod.splits sum.splits result.splits
        dest!: get_row_issuedD)
qed


lemma put_lights_id_stmts:
  "\<forall>q\<in>set (new_stmts d (snd (put_lights_id e req d))).
     stmt_user q = b_user (body req) \<or>
     (\<exists>u. sql_int (b_user (body req)) = Some u \<and> stmt_user q = js_int u)"
proof -
  have none: "new_stmts d d = []" by (simp add: new_stmts_def)
  show ?thesis
    unfolding put_lights_id_def getLight_def updateLight_def Let_def
    using put_stmts_generic [of Lights "''Light not found.''" req d]
    by (auto simp: none new_stmts_append split: prod.splits sum.splits result.splits
        dest!: get_row_issuedD)
qed

lemma session_not_consulted:
  "get_temperatures e (req\<lparr>session_user := su\<rparr>) d = get_temperatures e req d"
  "get_temperatures_last e (req\<lparr>session_user := su\<rparr>) d = get_temperatures_last e req d"
  "get_temperatures_id e (req\<lparr>session_user := su\<rparr>) d = get_temperatures_id e req d"
  "post_temperatures e (req\<lparr>session_user := su\<rparr>) d = post_temperatures e req d"
  "delete_temperatures_id e (req\<lparr>session_user := su\<rparr>) d = delete_temperatures_id e req d"
  "get_switches_id e (req\<lparr>session_user := su\<rparr>) d = get_switches_id e req d"
  "get_lights_id e (req\<lparr>session_user := su\<rparr>) d = get_lights_id e req d"
  "put_switches_id e (req\<lparr>session_user := su\<rparr>) d = put_switches_id e req d"
  "put_lights_id e (req\<lparr>session_user := su\<rparr>) d = put_lights_id e req d"
  by (simp_all add: get_temperatures_def get_temperatures_last_def get_temperatures_id_def
      post_temperatures_def delete_temperatures_id_def get_switches_id_def get_lights_id_def
      put_switches_id_def put_lights_id_def Let_def
      cong: prod.case_cong sum.case_cong result.case_cong if_cong)

text \<open>
  Claim C2, as stated, fails on the PUT routes: \<^verbatim>\<open>PUT /api/switches/5\<close> with the body
  \<^verbatim>\<open>{id: 5, user: 2, value: true}\<close> issues its three statements for user 2, and
  rewrites the switch of user 2.
\<close>

theorem put_switches_user_counterexample:
  "map stmt_user
     (new_stmts example_db (snd (put_switches_id example_env example_request example_db))) =
     [JNum 2, JNum 2, JNum 2] \<and>
   fst (put_switches_id example_env example_request example_db) =
     Reply 200 (Some (Obj (RowObj
       \<lparr>id_col = 5, date_col = ''2023-02-01T12:00:00Z'', value_col = JBool True, user_col = 2\<rparr>)))"
  by (simp add: put_switches_id_def example_env_def example_request_def example_db_def
      strict_neq_def decimal_def is_digit_def js_int_def getSwitch_def updateSwitch_def
      get_row_def update_row_def db_get_def db_run_def where_id_user_def new_stmts_def Let_def)

text \<open>
  Claim C2, amended. No resource route consults the session: a request is served the same
  whatever the user of its session, authenticated or not. The GET, POST and DELETE routes
  on temperatures and the GET routes on switches and lights scope every statement they
  issue to the fixed user 1. The PUT routes on switches and lights scope theirs to the
  user field of the request body (the read-back after the update names the user of the
  row fetched under that field, which is the integer that field stands for).
\<close>

theorem resource_routes_store_user:
  "(h \<in> {get_temperatures, get_temperatures_last, get_temperatures_id, post_temperatures,
          delete_temperatures_id, get_switches_id, get_lights_id} \<longrightarrow>
      h e (req\<lparr>session_user := su\<rparr>) d = h e req d \<and>
      (\<forall>q\<in>set (new_stmts d (snd (h e req d))). stmt_user q = JNum 1)) \<and>
   (h \<in> {put_switches_id, put_lights_id} \<longrightarrow>
      h e (req\<lparr>session_user := su\<rparr>) d = h e req d \<and>
      (\<forall>q\<in>set (new_stmts d (snd (h e req d))).
         stmt_user q = b_user (body req) \<or>
         (\<exists>u. sql_int (b_user (body req)) = Some u \<and> stmt_user q = js_int u)))"
proof (intro conjI impI)
  assume "h \<in> {get_temperatures, get_temperatures_last, get_temperatures_id, post_temperatures,
          delete_temperatures_id, get_switches_id, get_lights_id}"
  then consider "h = get_temperatures" | "h = get_temperatures_last"
    | "h = get_temperatures_id" | "h = post_temperatures" | "h = delete_temperatures_id"
    | "h = get_switches_id" | "h = get_lights_id"
    by auto
  then have "h e (req\<lparr>session_user := su\<rparr>) d = h e req d \<and>
      (\<forall>q\<in>set (new_stmts d (snd (h e req d))). stmt_user q = JNum 1)"
  proof cases
    case 1
    then show ?thesis by (simp add: session_not_consulted get_temperatures_stmts)
  next
    case 2
    then show ?thesis by (simp add: session_not_consulted get_temperatures_last_stmts)
  next
    case 3
    then show ?thesis by (simp add: session_not_consulted get_temperatures_id_stmts)
  next
    case 4
    then show ?thesis using post_temperatures_stmts by (simp add: session_not_consulted)
  next
    case 5
    then show ?thesis by (simp add: session_not_consulted delete_temperatures_id_stmts)
  next
    case 6
    then show ?thesis by (simp add: session_not_consulted get_switches_id_stmts)
  next
    case 7
    then show ?thesis by (simp add: session_not_consulted get_lights_id_stmts)
  qed
  then show "h e (req\<lparr>session_user := su\<rparr>) d = h e req d"
    and "\<forall>q\<in>set (new_stmts d (snd (h e req d))). stmt_user q = JNum 1"
    by simp_all
next
  assume "h \<in> {put_switches_id, put_lights_id}"
  then consider "h = put_switches_id" | "h = put_lights_id" by auto
  then have "h e (req\<lparr>session_user := su\<rparr>) d = h e req d \<and>
      (\<forall>q\<in>set (new_stmts d (snd (h e req d))).
         stmt_user q = b_user (body req) \<or>
         (\<exists>u. sql_int (b_user (body req)) = Some u \<and> stmt_user q = js_int u))"
  proof cases
    case 1
    then show ?thesis using put_switches_id_stmts by (simp add: session_not_consulted)
  next
    case 2
    then show ?thesis using put_lights_id_stmts by (simp add: session_not_consulted)
  qed
  then show "h e (req\<lparr>session_user := su\<rparr>) d = h e req d"
    and "\<forall>q\<in>set (new_stmts d (snd (h e req d))).
         stmt_user q = b_user (body req) \<or>
         (\<exists>u. sql_int (b_user (body req)) = Some u \<and> stmt_user q = js_int u)"
    by simp_all
qed


theorem resource_routes_store_user_witness:
  "get_temperatures_id example_env
     (example_request\<lparr>session_user := Some \<lparr>user_id = 9, username = ''x'', name = ''X''\<rparr>\<rparr>)
     example_db =
     get_temperatures_id example_env example_request example_db \<and>
   map stmt_user
     (new_stmts example_db (snd (get_temperatures_id example_env example_request example_db))) =
     [JNum 1] \<and>
   put_lights_id example_env
     (example_request\<lparr>session_user := Some \<lparr>user_id = 9, username = ''x'', name = ''X''\<rparr>\<rparr>)
     example_db =
     put_lights_id example_env example_request example_db \<and>
   map stmt_user
     (new_stmts example_db (snd (put_lights_id example_env
        \<lparr>params_id = ''3'',
         body = \<lparr>b_id = JNum 3, b_user = JNum 1, b_value = JNum 70,
                  b_username = JUndefined, b_password = JUndefined\<rparr>,
         session_user = None\<rparr> example_db))) =
     [JNum 1, JNum 1, JNum 1]"
proof -
  have a: "get_temperatures_id example_env
     (example_request\<lparr>session_user := Some \<lparr>user_id = 9, username = ''x'', name = ''X''\<rparr>\<rparr>)
     example_db = get_temperatures_id example_env example_request example_db"
    using resource_routes_store_user [where h = get_temperatures_id and e = example_env
        and req = example_request and d = example_db
        and su = "Some \<lparr>user_id = 9, username = ''x'', name = ''X''\<rparr>"]
    by simp
  have a': "put_lights_id example_env
     (example_request\<lparr>session_user := Some \<lparr>user_id = 9, username = ''x'', name = ''X''\<rparr>\<rparr>)
     example_db = put_lights_id example_env example_request example_db"
    using resource_routes_store_user [where h = put_lights_id and e = example_env
        and req = example_request and d = example_db
        and su = "Some \<lparr>user_id = 9, username = ''x'', name = ''X''\<rparr>"]
    by simp
  have b: "new_stmts example_db (snd (get_temperatures_id example_env example_request example_db)) =
      [SelectWhereIdUser Temperatures (JStr ''5'') (JNum 1)]"
    by (simp add: get_temperatures_id_stmts example_request_def)
  have c: "new_stmts example_db (snd (put_lights_id example_env
        \<lparr>params_id = ''3'',
         body = \<lparr>b_id = JNum 3, b_user = JNum 1, b_value = JNum 70,
                  b_username = JUndefined, b_password = JUndefined\<rparr>,
         session_user = None\<rparr> example_db)) =
      [SelectWhereIdUser Lights (JNum 3) (JNum 1),
       UpdateSet Lights ''2023-02-01T12:00:00Z'' (JNum 70) (JNum 3) (JNum 1),
       SelectWhereIdUser Lights (JNum 3) (JNum 1)]"
    by (simp add: put_lights_id_def example_env_def example_db_def
      strict_neq_def decimal_def is_digit_def js_int_def getLight_def updateLight_def
      get_row_def update_row_def db_get_def db_run_def where_id_user_def new_stmts_def Let_def)
  show ?thesis using a a' by (simp add: b c)
qed

end
